theory Spec2Isabelle
  imports Main "HOL-Library.Word"
begin

section \<open>Stanzas and JavaScript values\<close>

text \<open>
  A stanza (\<open>BinaryNode\<close>) has a tag, string-valued attributes and a content that is
  absent, a list of child stanzas, a byte buffer or a string. An attribute that is
  not set reads as \<open>undefined\<close>, modelled as \<open>None\<close>.
\<close>

type_synonym byte = "8 word"
type_synonym bytes = "byte list"
type_synonym jsstring = "string option"
type_synonym BinaryNodeAttributes = "string \<rightharpoonup> string"

datatype 'n NodeContent = NoContent | Nodes "'n list" | Buffer bytes | Text string

datatype BinaryNode =
  BinaryNode (tag: string) (attrs: BinaryNodeAttributes) (content: "BinaryNode NodeContent")

text \<open>
  JavaScript truthiness of a value of type \<open>string | undefined\<close>: \<open>undefined\<close> and the
  empty string are falsy. \<open>a || b\<close> is \<open>a\<close> when \<open>a\<close> is truthy and \<open>b\<close> otherwise.
\<close>

definition truthy :: "jsstring \<Rightarrow> bool" where
  "truthy v = (case v of None \<Rightarrow> False | Some s \<Rightarrow> s \<noteq> [])"

definition js_or :: "jsstring \<Rightarrow> jsstring \<Rightarrow> jsstring" where
  "js_or a b = (if truthy a then a else b)"

text \<open>
  A property read \<open>obj[key]\<close> converts the key to a property name: \<open>undefined\<close> becomes
  the name \<open>undefined\<close>.
\<close>

definition propKey :: "jsstring \<Rightarrow> string" where
  "propKey k = (case k of None \<Rightarrow> ''undefined'' | Some s \<Rightarrow> s)"

text \<open>
  A number obtained by unary plus from an attribute (\<open>+attrs.t\<close>) is kept symbolic;
  \<open>Number n\<close> is a numeric literal.
\<close>

datatype jsnumber = ToNumber jsstring | Number nat

text \<open>\<open>Number.prototype.toString\<close> on a non-negative integer: its decimal digits.\<close>

definition digitChar :: "nat \<Rightarrow> char" where
  "digitChar d = ''0123456789'' ! d"

function toStringNat :: "nat \<Rightarrow> string" where
  "toStringNat n = (if n < 10 then [digitChar n] else toStringNat (n div 10) @ [digitChar (n mod 10)])"
  by pat_completeness auto
termination
  by (relation "measure (\<lambda>n. n)") auto

declare toStringNat.simps [simp del]

datatype error = TypeError | Rejected string

section \<open>Protocol data\<close>

record MessageKey =
  remoteJid :: jsstring
  key_id :: jsstring
  fromMe :: bool
  participant :: jsstring

text \<open>
  Modelled from the spec: the enum \<open>proto.WebMessageInfo.WebMessageInfoStatus\<close> of
  WAProto is not part of the sources; the spec gives its members in increasing order
  \<open>PENDING, SERVER_ACK, DELIVERY_ACK, READ, PLAYED\<close>. \<open>statusNum\<close> is the numeric
  value the source compares with the operator \<^verbatim>\<open>>\<close>.
\<close>

datatype WebMessageInfoStatus = PENDING | SERVER_ACK | DELIVERY_ACK | READ | PLAYED

fun statusNum :: "WebMessageInfoStatus \<Rightarrow> nat" where
  "statusNum PENDING = 1"
| "statusNum SERVER_ACK = 2"
| "statusNum DELIVERY_ACK = 3"
| "statusNum READ = 4"
| "statusNum PLAYED = 5"

text \<open>
  Modelled from the spec: the enum \<open>WAMessageStubType\<close> of WAProto is not part of the
  sources; these are the members the socket names. \<open>WAMessageStubType_lookup\<close> is the
  indexing of the enum object by a member name, \<open>undefined\<close> for any other name.
\<close>

datatype WAMessageStubType =
    CIPHERTEXT | GROUP_CREATE | GROUP_CHANGE_SUBJECT | GROUP_CHANGE_ANNOUNCE
  | GROUP_CHANGE_RESTRICT | GROUP_PARTICIPANT_ADD | GROUP_PARTICIPANT_REMOVE
  | GROUP_PARTICIPANT_PROMOTE | GROUP_PARTICIPANT_DEMOTE | GROUP_PARTICIPANT_LEAVE

definition WAMessageStubType_lookup :: "string \<Rightarrow> WAMessageStubType option" where
  "WAMessageStubType_lookup name =
     map_of [(''CIPHERTEXT'', CIPHERTEXT), (''GROUP_CREATE'', GROUP_CREATE),
             (''GROUP_CHANGE_SUBJECT'', GROUP_CHANGE_SUBJECT),
             (''GROUP_CHANGE_ANNOUNCE'', GROUP_CHANGE_ANNOUNCE),
             (''GROUP_CHANGE_RESTRICT'', GROUP_CHANGE_RESTRICT),
             (''GROUP_PARTICIPANT_ADD'', GROUP_PARTICIPANT_ADD),
             (''GROUP_PARTICIPANT_REMOVE'', GROUP_PARTICIPANT_REMOVE),
             (''GROUP_PARTICIPANT_PROMOTE'', GROUP_PARTICIPANT_PROMOTE),
             (''GROUP_PARTICIPANT_DEMOTE'', GROUP_PARTICIPANT_DEMOTE),
             (''GROUP_PARTICIPANT_LEAVE'', GROUP_PARTICIPANT_LEAVE)] name"

text \<open>
  A message content (\<open>proto.IMessage\<close>): the ephemeral-setting protocol message the
  notification interpreter builds, or any other content, kept opaque.
\<close>

datatype Message = EphemeralSetting jsnumber | Content string

text \<open>
  The partial \<open>IWebMessageInfo\<close> built from a notification. \<open>msg_key_participant\<close> is
  the \<open>key\<close> object \<open>{ participant: owner }\<close> set by the \<open>create\<close> branch: \<open>None\<close> when
  no key object was set.
\<close>

record PartialMessage =
  messageStubType :: "WAMessageStubType option"
  messageStubParameters :: "jsstring list option"
  msg_key_participant :: "jsstring option"
  message :: "Message option"

record WebMessageInfo =
  key :: MessageKey
  wm_stubType :: "WAMessageStubType option"
  wm_stubParameters :: "jsstring list option"
  wm_message :: "Message option"
  wm_participant :: jsstring
  messageTimestamp :: "jsnumber option"

record MessageUserReceipt =
  userJid :: string
  receiptTimestamp :: "jsnumber option"
  readTimestamp :: "jsnumber option"

record GroupMetadata =
  gm_id :: string
  subject :: jsstring
  owner :: jsstring
  creation :: "jsnumber option"

datatype UpsertType = upsert_append | upsert_notify

type_synonym CredsUpdate = string
type_synonym MediaUpdate = string

datatype Event =
    MessageReceiptUpdate "(MessageKey \<times> MessageUserReceipt) list"
  | MessagesUpdate "(MessageKey \<times> WebMessageInfoStatus) list"
  | MessagesUpsert "WebMessageInfo list" UpsertType
  | MessagesMediaUpdate "MediaUpdate list"
  | ChatsUpsert "(string \<times> jsstring \<times> jsnumber option) list"
  | GroupsUpsert "GroupMetadata list"
  | CredsUpdateEv CredsUpdate

text \<open>Calls to the collaborators the socket is given.\<close>

datatype ExtCall =
    GetMessage MessageKey
  | AssertSessions "jsstring list" bool
  | KeysSetSenderKeyMemory jsstring
  | RelayMessage jsstring Message jsstring jsstring
  | SendReceipt jsstring jsstring "jsstring list" jsstring
  | UploadPreKeys
  | AwaitDecryption
  | OnUnexpectedError error string

text \<open>What the socket does to the outside world, in the order it does it.\<close>

datatype Effect = SendNode BinaryNode | Emit Event | Call ExtCall

section \<open>Ack Emitter: \<open>sendMessageAck\<close>\<close>

text \<open>
  The object literal \<open>{ id: attrs.id, to: attrs.from, class: tag, ...extraAttrs }\<close>:
  the keys of \<open>extraAttrs\<close> are spread last and replace the three base keys.
\<close>

definition ackBaseAttrs :: "string \<Rightarrow> BinaryNodeAttributes \<Rightarrow> BinaryNodeAttributes" where
  "ackBaseAttrs tg at =
     (\<lambda>k. if k = ''id'' then at ''id''
          else if k = ''to'' then at ''from''
          else if k = ''class'' then Some tg
          else None)"

definition ackStanza :: "BinaryNode \<Rightarrow> BinaryNodeAttributes \<Rightarrow> BinaryNode" where
  "ackStanza node extraAttrs =
     (let tg = tag node; at = attrs node;
          a0 = ackBaseAttrs tg at ++ extraAttrs;
          a1 = (if truthy (at ''participant'')
                then a0(''participant'' := at ''participant'') else a0);
          a2 = (if tg \<noteq> ''message'' \<and> truthy (at ''type'') \<and> \<not> truthy (extraAttrs ''type'')
                then a1(''type'' := at ''type'') else a1)
      in BinaryNode ''ack'' a2 NoContent)"

definition sendMessageAck :: "BinaryNode \<Rightarrow> BinaryNodeAttributes \<Rightarrow> Effect list" where
  "sendMessageAck node extraAttrs = [SendNode (ackStanza node extraAttrs)]"

section \<open>Collaborators\<close>

text \<open>
  The helpers of \<open>../WABinary\<close> are not part of the sources. They are parameters of
  the model. \<open>jidNormalizedUser\<close> decodes its argument and takes the result apart, so
  it may throw; the other helpers are total functions on the values the socket passes
  them. The socket's calls of \<open>getBinaryNodeChildren\<close> with \<open>undefined\<close> are modelled
  where they occur.
\<close>

record FullJid =
  user :: string
  device :: "nat option"

record WABinary =
  areJidsSameUser :: "jsstring \<Rightarrow> jsstring \<Rightarrow> bool"
  isJidGroup :: "jsstring \<Rightarrow> bool"
  isJidUser :: "jsstring \<Rightarrow> bool"
  jidDecode :: "string \<Rightarrow> FullJid option"
  jidEncode :: "string \<Rightarrow> string \<Rightarrow> nat option \<Rightarrow> nat option \<Rightarrow> string"
  jidNormalizedUser :: "jsstring \<Rightarrow> error + string"
  getBinaryNodeChildren :: "BinaryNode option \<Rightarrow> string \<Rightarrow> BinaryNode list"
  getAllBinaryNodeChildren :: "BinaryNode \<Rightarrow> BinaryNode list"
  getBinaryNodeChild :: "BinaryNode \<Rightarrow> string \<Rightarrow> BinaryNode option"
  S_WHATSAPP_NET :: string

record KeyPair =
  kp_public :: bytes
  kp_private :: bytes

record SignedKeyPair =
  keyPair :: KeyPair
  signature :: bytes
  skp_keyId :: nat

text \<open>
  The helpers of \<open>../Utils\<close>, \<open>../Defaults\<close>, \<open>./groups\<close> and the protobuf encoder,
  none of them part of the sources. \<open>KEY_BUNDLE_TYPE\<close> stands for
  \<open>Buffer.from(KEY_BUNDLE_TYPE)\<close>, \<open>encodeADV\<close> for
  \<open>proto.ADVSignedDeviceIdentity.encode(account).finish()\<close>, and \<open>numberLess v n\<close> for
  the JavaScript comparison \<open>+v < n\<close> of a converted attribute with a number.
  \<open>strLess s n\<close>, \<open>strGreater s n\<close> and \<open>strGreaterEq s n\<close> are JavaScript's
  comparisons \<^verbatim>\<open>s < n\<close>, \<^verbatim>\<open>s > n\<close> and \<^verbatim>\<open>s >= n\<close> of a string with a number.
\<close>

record Utils =
  getStatusFromReceiptType :: "jsstring \<Rightarrow> WebMessageInfoStatus option"
  encodeBigEndian :: "nat \<Rightarrow> bytes"
  generateSignalPubKey :: "bytes \<Rightarrow> bytes"
  KEY_BUNDLE_TYPE :: bytes
  xmppPreKey :: "KeyPair \<Rightarrow> nat \<Rightarrow> BinaryNode"
  xmppSignedPreKey :: "SignedKeyPair \<Rightarrow> BinaryNode"
  encodeADV :: "string \<Rightarrow> bytes"
  extractGroupMetadata :: "BinaryNode \<Rightarrow> error + GroupMetadata"
  decodeMediaRetryNode :: "BinaryNode \<Rightarrow> error + MediaUpdate"
  MIN_PREKEY_COUNT :: nat
  numberLess :: "jsstring \<Rightarrow> nat \<Rightarrow> bool"
  strLess :: "string \<Rightarrow> nat \<Rightarrow> bool"
  strGreater :: "string \<Rightarrow> nat \<Rightarrow> bool"
  strGreaterEq :: "string \<Rightarrow> nat \<Rightarrow> bool"
  cleanMessage :: "WebMessageInfo \<Rightarrow> string \<Rightarrow> WebMessageInfo"

record AuthCreds =
  account :: string
  signedPreKey :: SignedKeyPair
  signedIdentityKey :: KeyPair
  registrationId :: nat
  me :: "string option"

text \<open>
  The collaborators that do input and output and may reject. \<open>getNextPreKeys\<close> is
  \<open>getNextPreKeys(authState, 1)\<close>: asked for one prekey, it yields the credentials
  update and that one prekey with its id, or rejects. \<open>sendNode\<close> is a fire-and-forget
  write and is recorded as the effect \<open>SendNode\<close>.
\<close>

record IO =
  getNextPreKeys :: "error + (CredsUpdate \<times> nat \<times> KeyPair)"
  getMessage :: "MessageKey \<Rightarrow> error + Message option"
  assertSessions :: "jsstring list \<Rightarrow> bool \<Rightarrow> error option"
  keysSet :: "jsstring \<Rightarrow> error option"
  relayMessage :: "jsstring \<Rightarrow> Message \<Rightarrow> jsstring \<Rightarrow> jsstring \<Rightarrow> error option"
  sendReceipt :: "jsstring \<Rightarrow> jsstring \<Rightarrow> jsstring list \<Rightarrow> jsstring \<Rightarrow> error option"

section \<open>The retry map\<close>

text \<open>
  \<open>msgRetryMap\<close> is the plain object \<open>config.msgRetryCounterMap || { }\<close>. Its own
  properties hold what the socket stores under a message id: a number, or the string
  that \<open>+ 1\<close> makes of a value that is not a number. Numbers are natural numbers,
  which is what the socket itself writes.
\<close>

datatype counter = CNum nat | CStr string

type_synonym RetryMap = "string \<rightharpoonup> counter"

text \<open>
  A plain object inherits the properties of \<open>Object.prototype\<close>. All of them are
  functions but \<open>__proto__\<close>, which reads as the prototype object itself.
\<close>

definition objectPrototypeNames :: "string list" where
  "objectPrototypeNames =
     [''constructor'', ''__defineGetter__'', ''__defineSetter__'', ''hasOwnProperty'',
      ''__lookupGetter__'', ''__lookupSetter__'', ''isPrototypeOf'', ''propertyIsEnumerable'',
      ''toString'', ''valueOf'', ''__proto__'', ''toLocaleString'']"

text \<open>
  The text of an inherited member, as Node prints it: the conversion of such a value
  to a primitive (in a comparison, in \<open>+ 1\<close>, in \<open>toString()\<close>) yields this string.
\<close>

definition nativeText :: "string \<Rightarrow> string" where
  "nativeText k =
     (if k = ''__proto__'' then ''[object Object]''
      else if k = ''constructor'' then ''function Object() { [native code] }''
      else ''function '' @ k @ ''() { [native code] }'')"

text \<open>
  The read \<open>msgRetryMap[k]\<close>: an own property, else the member inherited under that
  name, else \<open>undefined\<close> (\<open>None\<close>). An inherited member is read as its text: it is
  truthy, as its text is not empty, and every use the socket makes of the value
  converts it to that text.
\<close>

definition readProp :: "RetryMap \<Rightarrow> string \<Rightarrow> counter option" where
  "readProp m k =
     (case m k of
        Some v \<Rightarrow> Some v
      | None \<Rightarrow> if k \<in> set objectPrototypeNames then Some (CStr (nativeText k)) else None)"

text \<open>
  The write \<open>msgRetryMap[k] = v\<close> makes an own property, except under the name
  \<open>__proto__\<close>, where it runs the inherited setter, which ignores a number or a string.
  \<open>delete msgRetryMap[k]\<close> removes an own property.
\<close>

definition writeProp :: "RetryMap \<Rightarrow> string \<Rightarrow> counter \<Rightarrow> RetryMap" where
  "writeProp m k v = (if k = ''__proto__'' \<and> m k = None then m else m(k \<mapsto> v))"

definition deleteProp :: "RetryMap \<Rightarrow> string \<Rightarrow> RetryMap" where
  "deleteProp m k = m(k := None)"

text \<open>\<open>msgRetryMap[id] || d\<close>: \<open>undefined\<close>, the number 0 and the empty string are falsy.\<close>

definition counterOr :: "counter option \<Rightarrow> nat \<Rightarrow> counter" where
  "counterOr v d =
     (case v of
        None \<Rightarrow> CNum d
      | Some (CNum c) \<Rightarrow> if c = 0 then CNum d else CNum c
      | Some (CStr s) \<Rightarrow> if s = [] then CNum d else CStr s)"

text \<open>\<open>v + 1\<close>: addition on a number, concatenation on a string.\<close>

definition plusOne :: "counter \<Rightarrow> counter" where
  "plusOne v = (case v of CNum c \<Rightarrow> CNum (c + 1) | CStr s \<Rightarrow> CStr (s @ ''1''))"

definition counterText :: "counter \<Rightarrow> string" where
  "counterText v = (case v of CNum c \<Rightarrow> toStringNat c | CStr s \<Rightarrow> s)"

text \<open>
  The comparisons \<open>v >= n\<close>, \<open>v > n\<close> and \<open>v < n\<close> with a number \<open>n\<close>. A string is
  converted to a number first; that conversion is JavaScript's and is taken as given
  (the three comparisons of a string with a number in \<open>Utils\<close>).
\<close>

definition counterGe :: "Utils \<Rightarrow> counter \<Rightarrow> nat \<Rightarrow> bool" where
  "counterGe ut v n = (case v of CNum c \<Rightarrow> c \<ge> n | CStr s \<Rightarrow> strGreaterEq ut s n)"

definition counterGt :: "Utils \<Rightarrow> counter \<Rightarrow> nat \<Rightarrow> bool" where
  "counterGt ut v n = (case v of CNum c \<Rightarrow> c > n | CStr s \<Rightarrow> strGreater ut s n)"

definition counterLt :: "Utils \<Rightarrow> counter \<Rightarrow> nat \<Rightarrow> bool" where
  "counterLt ut v n = (case v of CNum c \<Rightarrow> c < n | CStr s \<Rightarrow> strLess ut s n)"

section \<open>Retry Requester: \<open>sendRetryRequest\<close>\<close>

definition keysBundle :: "Utils \<Rightarrow> AuthCreds \<Rightarrow> nat \<Rightarrow> KeyPair \<Rightarrow> BinaryNode" where
  "keysBundle ut creds keyId ky =
     BinaryNode ''keys'' Map.empty (Nodes
       [BinaryNode ''type'' Map.empty (Buffer (take 1 (generateSignalPubKey ut (KEY_BUNDLE_TYPE ut)))),
        BinaryNode ''identity'' Map.empty (Buffer (kp_public (signedIdentityKey creds))),
        xmppPreKey ut ky keyId,
        xmppSignedPreKey ut (signedPreKey creds),
        BinaryNode ''device-identity'' Map.empty (Buffer (encodeADV ut (account creds)))])"

text \<open>
  The receipt built inside the key-store transaction. \<open>decFrom!.user\<close> throws a
  \<open>TypeError\<close> when the stanza has no participant and its \<open>from\<close> is missing or does
  not decode.
\<close>

definition retryReceipt ::
  "WABinary \<Rightarrow> Utils \<Rightarrow> AuthCreds \<Rightarrow> BinaryNode \<Rightarrow> counter \<Rightarrow> nat \<Rightarrow> KeyPair \<Rightarrow> error + BinaryNode" where
  "retryReceipt wb ut creds node retryCount keyId ky =
     (let at = attrs node;
          msgId = at ''id'';
          isGroup = truthy (at ''participant'');
          decFrom = (case at ''from'' of
                       None \<Rightarrow> None
                     | Some f \<Rightarrow> if f = [] then None else jidDecode wb f);
          to = (if isGroup then Inr (at ''from'')
                else case decFrom of
                       None \<Rightarrow> Inl TypeError
                     | Some d \<Rightarrow> Inr (Some (jidEncode wb (user d) ''s.whatsapp.net'' (device d) (Some 0))))
      in case to of
           Inl e \<Rightarrow> Inl e
         | Inr toJid \<Rightarrow>
             (let a0 = (Map.empty(''type'' \<mapsto> ''retry''))(''id'' := msgId, ''to'' := toJid);
                  base = [BinaryNode ''retry''
                            ((Map.empty(''count'' \<mapsto> counterText retryCount, ''v'' \<mapsto> ''1''))
                               (''id'' := at ''id'', ''t'' := at ''t''))
                            NoContent,
                          BinaryNode ''registration'' Map.empty
                            (Buffer (encodeBigEndian ut (registrationId creds)))];
                  a1 = (if truthy (at ''recipient'') then a0(''recipient'' := at ''recipient'') else a0);
                  a2 = (if truthy (at ''participant'') then a1(''participant'' := at ''participant'') else a1);
                  children = (if counterGt ut retryCount 1
                              then base @ [keysBundle ut creds keyId ky] else base)
              in Inr (BinaryNode ''receipt'' a2 (Nodes children))))"

definition sendRetryRequest ::
  "WABinary \<Rightarrow> Utils \<Rightarrow> AuthCreds \<Rightarrow> IO \<Rightarrow> RetryMap \<Rightarrow> BinaryNode
     \<Rightarrow> RetryMap \<times> Effect list \<times> error option" where
  "sendRetryRequest wb ut creds io m node =
     (let msgId = propKey (attrs node ''id'');
          retryCount = counterOr (readProp m msgId) 1
      in if counterGe ut retryCount 5 then (deleteProp m msgId, [], None)
         else
           (let m' = writeProp m msgId (plusOne retryCount)
            in case getNextPreKeys io of
                 Inl e \<Rightarrow> (m', [], Some e)
               | Inr (update, keyId, ky) \<Rightarrow>
                   (case retryReceipt wb ut creds node retryCount keyId ky of
                      Inl e \<Rightarrow> (m', [], Some e)
                    | Inr receipt \<Rightarrow> (m', [SendNode receipt, Emit (CredsUpdateEv update)], None))))"

section \<open>Receipt Interpreter: \<open>handleReceipt\<close>\<close>

definition willSendMessageAgain :: "Utils \<Rightarrow> RetryMap \<Rightarrow> jsstring \<Rightarrow> bool" where
  "willSendMessageAgain ut m i = counterLt ut (counterOr (readProp m (propKey i)) 0) 5"

text \<open>
  \<open>Promise.all\<close> over the \<open>getMessage\<close> lookups: every lookup is started; the result
  is the list of messages, or the first rejection.
\<close>

fun promiseAll :: "(error + 'a) list \<Rightarrow> error + 'a list" where
  "promiseAll [] = Inr []"
| "promiseAll (Inl e # rs) = Inl e"
| "promiseAll (Inr x # rs) = (case promiseAll rs of Inl e \<Rightarrow> Inl e | Inr xs \<Rightarrow> Inr (x # xs))"

text \<open>
  The loop of \<open>sendMessagesAgain\<close> over the ids and the messages found for them: the
  counter of an id is raised before its message is relayed, and a rejected relay ends
  the loop with the counters raised so far.
\<close>

definition bumpRetry :: "RetryMap \<Rightarrow> jsstring \<Rightarrow> RetryMap" where
  "bumpRetry m i = writeProp m (propKey i) (plusOne (counterOr (readProp m (propKey i)) 0))"

fun relayLoop ::
  "IO \<Rightarrow> MessageKey \<Rightarrow> jsstring \<Rightarrow> RetryMap \<Rightarrow> (jsstring \<times> Message option) list
     \<Rightarrow> RetryMap \<times> Effect list \<times> error option" where
  "relayLoop io k p m [] = (m, [], None)"
| "relayLoop io k p m ((i, None) # rest) = relayLoop io k p m rest"
| "relayLoop io k p m ((i, Some msg) # rest) =
     (case relayMessage io (remoteJid k) msg i p of
        Some e \<Rightarrow> (bumpRetry m i, [Call (RelayMessage (remoteJid k) msg i p)], Some e)
      | None \<Rightarrow>
          (case relayLoop io k p (bumpRetry m i) rest of
             (m', es, r) \<Rightarrow> (m', Call (RelayMessage (remoteJid k) msg i p) # es, r)))"

definition sendMessagesAgain ::
  "WABinary \<Rightarrow> IO \<Rightarrow> RetryMap \<Rightarrow> MessageKey \<Rightarrow> jsstring list
     \<Rightarrow> RetryMap \<times> Effect list \<times> error option" where
  "sendMessagesAgain wb io m k ids =
     (let keys = map (\<lambda>i. k\<lparr>key_id := i\<rparr>) ids;
          lookups = map (\<lambda>ki. Call (GetMessage ki)) keys
      in case promiseAll (map (getMessage io) keys) of
           Inl e \<Rightarrow> (m, lookups, Some e)
         | Inr msgs \<Rightarrow>
             (let p = js_or (participant k) (remoteJid k);
                  a = lookups @ [Call (AssertSessions [p] True)]
              in case assertSessions io [p] True of
                   Some e \<Rightarrow> (m, a, Some e)
                 | None \<Rightarrow>
                     (let b = (if isJidGroup wb (remoteJid k)
                               then a @ [Call (KeysSetSenderKeyMemory (remoteJid k))] else a)
                      in case (if isJidGroup wb (remoteJid k) then keysSet io (remoteJid k) else None) of
                           Some e \<Rightarrow> (m, b, Some e)
                         | None \<Rightarrow>
                             (case relayLoop io k p m (zip ids msgs) of
                                (m', es, r) \<Rightarrow> (m', b @ es, r)))))"

definition isNodeFromMe :: "WABinary \<Rightarrow> AuthCreds \<Rightarrow> BinaryNodeAttributes \<Rightarrow> bool" where
  "isNodeFromMe wb creds at =
     areJidsSameUser wb (js_or (at ''participant'') (at ''from'')) (me creds)"

text \<open>
  The ids of a receipt: its own id and, when the content is an array, the ids of the
  \<open>item\<close> children of the first child. \<open>getBinaryNodeChildren\<close> takes its node apart
  on entry, so for an empty array, where \<open>content[0]\<close> is \<open>undefined\<close>, the call throws
  a \<open>TypeError\<close>.
\<close>

definition receiptIds :: "WABinary \<Rightarrow> BinaryNode \<Rightarrow> error + jsstring list" where
  "receiptIds wb node =
     (case content node of
        Nodes cs \<Rightarrow>
          (case cs of
             [] \<Rightarrow> Inl TypeError
           | c # _ \<Rightarrow>
               Inr (attrs node ''id'' #
                      map (\<lambda>i. attrs i ''id'') (getBinaryNodeChildren wb (Some c) ''item'')))
      | _ \<Rightarrow> Inr [attrs node ''id''])"

definition receiptKey :: "WABinary \<Rightarrow> AuthCreds \<Rightarrow> BinaryNode \<Rightarrow> MessageKey" where
  "receiptKey wb creds node =
     (let at = attrs node;
          fromMe_node = isNodeFromMe wb creds at
      in \<lparr> remoteJid = (if \<not> fromMe_node \<or> isJidGroup wb (at ''from'')
                         then at ''from'' else at ''recipient''),
           key_id = Some [],
           fromMe = (\<not> truthy (at ''recipient'') \<or> (at ''type'' = Some ''retry'' \<and> fromMe_node)),
           participant = at ''participant'' \<rparr>)"

text \<open>
  The status update emitted under the per-chat mutex. In a group the entries are built
  with \<open>jidNormalizedUser(attrs.participant)\<close> before the event is emitted, so a throw
  of that helper leaves nothing emitted.
\<close>

definition receiptUpdates ::
  "WABinary \<Rightarrow> Utils \<Rightarrow> AuthCreds \<Rightarrow> BinaryNode \<Rightarrow> jsstring list \<Rightarrow> error + Effect list" where
  "receiptUpdates wb ut creds node ids =
     (let at = attrs node;
          k = receiptKey wb creds node
      in case getStatusFromReceiptType ut (at ''type'') of
           None \<Rightarrow> Inr []
         | Some status \<Rightarrow>
             if statusNum status > statusNum DELIVERY_ACK \<or> \<not> isNodeFromMe wb creds at
             then
               (if isJidGroup wb (remoteJid k)
                then (case jidNormalizedUser wb (at ''participant'') of
                        Inl e \<Rightarrow> Inl e
                      | Inr u \<Rightarrow>
                          Inr [Emit (MessageReceiptUpdate
                                 (map (\<lambda>i. (k\<lparr>key_id := i\<rparr>,
                                             if status = DELIVERY_ACK
                                             then \<lparr> userJid = u,
                                                    receiptTimestamp = Some (ToNumber (at ''t'')),
                                                    readTimestamp = None \<rparr>
                                             else \<lparr> userJid = u,
                                                    receiptTimestamp = None,
                                                    readTimestamp = Some (ToNumber (at ''t'')) \<rparr>)) ids))])
                else Inr [Emit (MessagesUpdate (map (\<lambda>i. (k\<lparr>key_id := i\<rparr>, status)) ids))])
             else Inr [])"

text \<open>
  The retry branch: the resend, and whether the final ack is still due. Only an error
  thrown by \<open>sendMessagesAgain\<close> clears \<open>shouldAck\<close>.
\<close>

definition receiptResend ::
  "WABinary \<Rightarrow> Utils \<Rightarrow> AuthCreds \<Rightarrow> IO \<Rightarrow> RetryMap \<Rightarrow> BinaryNode \<Rightarrow> jsstring list
     \<Rightarrow> RetryMap \<times> Effect list \<times> bool" where
  "receiptResend wb ut creds io m node ids =
     (let at = attrs node;
          k = receiptKey wb creds node
      in if at ''type'' = Some ''retry''
            \<and> willSendMessageAgain ut m (case ids of [] \<Rightarrow> None | i # _ \<Rightarrow> i) \<and> fromMe k
         then (case sendMessagesAgain wb io m (k\<lparr>participant := js_or (participant k) (at ''from'')\<rparr>) ids of
                 (m', es, None) \<Rightarrow> (m', es, True)
               | (m', es, Some e) \<Rightarrow> (m', es, False))
         else (m, [], True))"

text \<open>
  \<open>handleReceipt\<close> as the \<open>CB:receipt\<close> callback runs it: an error thrown while the ids
  are collected or the status update is built ends the handler before anything is
  emitted or acked, and is handed to \<open>onUnexpectedError\<close>.
\<close>

definition handleReceipt ::
  "WABinary \<Rightarrow> Utils \<Rightarrow> AuthCreds \<Rightarrow> IO \<Rightarrow> RetryMap \<Rightarrow> BinaryNode \<Rightarrow> RetryMap \<times> Effect list" where
  "handleReceipt wb ut creds io m node =
     (case receiptIds wb node of
        Inl e \<Rightarrow> (m, [Call (OnUnexpectedError e ''handling receipt'')])
      | Inr ids \<Rightarrow>
          (case receiptUpdates wb ut creds node ids of
             Inl e \<Rightarrow> (m, [Call (OnUnexpectedError e ''handling receipt'')])
           | Inr updates \<Rightarrow>
               (case receiptResend wb ut creds io m node ids of
                  (m', es, shouldAck) \<Rightarrow>
                    (m', updates @ es @ (if shouldAck then sendMessageAck node Map.empty else [])))))"

section \<open>Notification Interpreter: \<open>processNotification\<close>, \<open>handleNotification\<close>\<close>

text \<open>\<open>String.prototype.toUpperCase\<close> on the letters of a stanza tag.\<close>

definition upperChar :: "char \<Rightarrow> char" where
  "upperChar c =
     (let n = (of_char c :: nat) in if 97 \<le> n \<and> n \<le> 122 then char_of (n - 32) else c)"

definition toUpperCase :: "string \<Rightarrow> string" where
  "toUpperCase s = map upperChar s"

definition emptyMessage :: PartialMessage where
  "emptyMessage =
     \<lparr> messageStubType = None, messageStubParameters = None,
       msg_key_participant = None, message = None \<rparr>"

text \<open>
  The pre-key count notification. An error inside it is caught and logged by the
  caller, so only the call of \<open>uploadPreKeys\<close> is visible.
\<close>

definition handleEncryptNotification :: "WABinary \<Rightarrow> Utils \<Rightarrow> BinaryNode \<Rightarrow> Effect list" where
  "handleEncryptNotification wb ut node =
     (if attrs node ''from'' = Some (S_WHATSAPP_NET wb)
      then (case getBinaryNodeChild wb node ''count'' of
              None \<Rightarrow> []
            | Some countChild \<Rightarrow>
                if numberLess ut (attrs countChild ''value'') (MIN_PREKEY_COUNT ut)
                then [Call UploadPreKeys] else [])
      else [])"

text \<open>
  The branch of the five participant tags: the stub type is the enum member named
  \<open>GROUP_PARTICIPANT_\<close> followed by the upper-cased tag, replaced by
  \<open>GROUP_PARTICIPANT_LEAVE\<close> when the only participant removed is the sender.
\<close>

definition participantsStub :: "WABinary \<Rightarrow> BinaryNode \<Rightarrow> BinaryNode \<Rightarrow> PartialMessage" where
  "participantsStub wb node child =
     (let stubType = ''GROUP_PARTICIPANT_'' @ toUpperCase (tag child);
          participants = map (\<lambda>p. attrs p ''jid'') (getBinaryNodeChildren wb (Some child) ''participant'');
          selfRemove = (case participants of
                          [p] \<Rightarrow> areJidsSameUser wb p (attrs node ''participant'') \<and> tag child = ''remove''
                        | _ \<Rightarrow> False)
      in emptyMessage
           \<lparr> messageStubType := (if selfRemove then Some GROUP_PARTICIPANT_LEAVE
                                  else WAMessageStubType_lookup stubType),
             messageStubParameters := Some participants \<rparr>)"

definition processGroupNotification ::
  "WABinary \<Rightarrow> Utils \<Rightarrow> BinaryNode \<Rightarrow> BinaryNode option
     \<Rightarrow> error + (Effect list \<times> PartialMessage option)" where
  "processGroupNotification wb ut node child =
     (case child of
        None \<Rightarrow> Inr ([], None)
      | Some c \<Rightarrow>
          if tag c = ''create'' then
            (case extractGroupMetadata ut c of
               Inl e \<Rightarrow> Inl e
             | Inr metadata \<Rightarrow>
                 Inr ([Emit (ChatsUpsert [(gm_id metadata, subject metadata, creation metadata)]),
                       Emit (GroupsUpsert [metadata])],
                      Some (emptyMessage
                              \<lparr> messageStubType := Some GROUP_CREATE,
                                messageStubParameters := Some [subject metadata],
                                msg_key_participant := Some (owner metadata) \<rparr>)))
          else if tag c = ''ephemeral'' \<or> tag c = ''not_ephemeral'' then
            Inr ([], Some (emptyMessage
                   \<lparr> message := Some (EphemeralSetting
                        (if truthy (attrs c ''expiration'') then ToNumber (attrs c ''expiration'')
                         else Number 0)) \<rparr>))
          else if tag c = ''promote'' \<or> tag c = ''demote'' \<or> tag c = ''remove''
                  \<or> tag c = ''add'' \<or> tag c = ''leave'' then
            Inr ([], Some (participantsStub wb node c))
          else if tag c = ''subject'' then
            Inr ([], Some (emptyMessage
                   \<lparr> messageStubType := Some GROUP_CHANGE_SUBJECT,
                     messageStubParameters := Some [attrs c ''subject''] \<rparr>))
          else if tag c = ''announcement'' \<or> tag c = ''not_announcement'' then
            Inr ([], Some (emptyMessage
                   \<lparr> messageStubType := Some GROUP_CHANGE_ANNOUNCE,
                     messageStubParameters :=
                       Some [Some (if tag c = ''announcement'' then ''on'' else ''off'')] \<rparr>))
          else if tag c = ''locked'' \<or> tag c = ''unlocked'' then
            Inr ([], Some (emptyMessage
                   \<lparr> messageStubType := Some GROUP_CHANGE_RESTRICT,
                     messageStubParameters :=
                       Some [Some (if tag c = ''locked'' then ''on'' else ''off'')] \<rparr>))
          else Inr ([], None))"

text \<open>
  \<open>processNotification\<close> returns the events it emits on the way and the partial
  message, \<open>None\<close> when the result object has no key. A throw leaves nothing emitted:
  the group metadata and the media-retry event are decoded before the emit, and the
  \<open>devices\<close> branch throws a \<open>TypeError\<close> on a stanza without child or on missing
  \<open>creds.me\<close>.
\<close>

definition processNotification ::
  "WABinary \<Rightarrow> Utils \<Rightarrow> AuthCreds \<Rightarrow> BinaryNode \<Rightarrow> error + (Effect list \<times> PartialMessage option)" where
  "processNotification wb ut creds node =
     (let child = (case getAllBinaryNodeChildren wb node of [] \<Rightarrow> None | c # _ \<Rightarrow> Some c);
          nodeType = attrs node ''type''
      in if nodeType = Some ''w:gp2'' then processGroupNotification wb ut node child
         else if nodeType = Some ''mediaretry'' then
           (case decodeMediaRetryNode ut node of
              Inl e \<Rightarrow> Inl e
            | Inr event \<Rightarrow> Inr ([Emit (MessagesMediaUpdate [event])], None))
         else if nodeType = Some ''encrypt'' then Inr (handleEncryptNotification wb ut node, None)
         else if nodeType = Some ''devices'' then
           (case (child, me creds) of
              (Some c, Some myId) \<Rightarrow> Inr ([], None)
            | _ \<Rightarrow> Inl TypeError)
         else Inr ([], None))"

text \<open>
  \<open>handleNotification\<close>: the ack, the interpretation, and the upsert of the message
  synthesized from the stanza. The key object of the partial message, when set, is
  spread last and replaces the participant.
\<close>

definition notificationMessage ::
  "WABinary \<Rightarrow> string \<Rightarrow> BinaryNode \<Rightarrow> PartialMessage \<Rightarrow> WebMessageInfo" where
  "notificationMessage wb myId node msg =
     (let at = attrs node;
          k = \<lparr> remoteJid = at ''from'',
                key_id = at ''id'',
                fromMe = areJidsSameUser wb (js_or (at ''participant'') (at ''from'')) (Some myId),
                participant = (case msg_key_participant msg of
                                 None \<Rightarrow> at ''participant''
                               | Some p \<Rightarrow> p) \<rparr>
      in \<lparr> key = k,
           wm_stubType = messageStubType msg,
           wm_stubParameters = messageStubParameters msg,
           wm_message = message msg,
           wm_participant = at ''participant'',
           messageTimestamp = Some (ToNumber (at ''t'')) \<rparr>)"

definition handleNotification ::
  "WABinary \<Rightarrow> Utils \<Rightarrow> AuthCreds \<Rightarrow> BinaryNode \<Rightarrow> Effect list \<times> error option" where
  "handleNotification wb ut creds node =
     (let ack = sendMessageAck node Map.empty
      in case processNotification wb ut creds node of
           Inl e \<Rightarrow> (ack, Some e)
         | Inr (es, None) \<Rightarrow> (ack @ es, None)
         | Inr (es, Some msg) \<Rightarrow>
             (case me creds of
                None \<Rightarrow> (ack @ es, Some TypeError)
              | Some myId \<Rightarrow>
                  (ack @ es @ [Emit (MessagesUpsert [notificationMessage wb myId node msg] upsert_append)],
                   None)))"

definition handleNotificationNode ::
  "WABinary \<Rightarrow> Utils \<Rightarrow> AuthCreds \<Rightarrow> BinaryNode \<Rightarrow> Effect list" where
  "handleNotificationNode wb ut creds node =
     (case handleNotification wb ut creds node of
        (es, None) \<Rightarrow> es
      | (es, Some e) \<Rightarrow> es @ [Call (OnUnexpectedError e ''handling notification'')])"

section \<open>Message Intake: the \<open>CB:message\<close> handler\<close>

text \<open>
  \<open>decodeMessageStanza\<close> is not part of the sources. Of its result the handler uses the
  category, the author and the decryption task; \<open>decryptionTask\<close> is what awaiting the
  task gives: a rejection, or the full message as the task has left it (with stub type
  \<open>CIPHERTEXT\<close> when decryption failed). \<open>onMessage\<close> below is the body of the handler,
  the effect \<open>AwaitDecryption\<close> being the return of its \<open>await decryptionTask\<close>; when
  the task itself settles is the subject of the next section.
\<close>

record DecodedStanza =
  category :: jsstring
  author :: jsstring
  decryptionTask :: "error + WebMessageInfo"

record SocketState =
  msgRetryMap :: RetryMap
  sendActiveReceipts :: bool

definition deliveryReceiptType :: "SocketState \<Rightarrow> DecodedStanza \<Rightarrow> WebMessageInfo \<Rightarrow> jsstring" where
  "deliveryReceiptType st d msg =
     (if category d = Some ''peer'' then Some ''peer_msg''
      else if fromMe (key msg) then Some ''sender''
      else if \<not> sendActiveReceipts st then Some ''inactive''
      else None)"

definition deliveryReceiptParticipant :: "WABinary \<Rightarrow> DecodedStanza \<Rightarrow> WebMessageInfo \<Rightarrow> jsstring" where
  "deliveryReceiptParticipant wb d msg =
     (if category d \<noteq> Some ''peer'' \<and> fromMe (key msg) \<and> isJidUser wb (remoteJid (key msg))
      then author d else participant (key msg))"

text \<open>\<open>cleanMessage(msg, creds.me!.id)\<close> and the upsert that ends the handler.\<close>

definition cleanAndUpsert :: "Utils \<Rightarrow> AuthCreds \<Rightarrow> BinaryNode \<Rightarrow> WebMessageInfo \<Rightarrow> Effect list" where
  "cleanAndUpsert ut creds stanza msg =
     (case me creds of
        None \<Rightarrow> [Call (OnUnexpectedError TypeError ''processing message'')]
      | Some myId \<Rightarrow>
          [Emit (MessagesUpsert [cleanMessage ut msg myId]
                   (if truthy (attrs stanza ''offline'') then upsert_append else upsert_notify))])"

text \<open>
  The retry task handed to the retry mutex and not awaited: with the transport open
  it runs \<open>sendRetryRequest\<close>, whose errors are caught and logged.
\<close>

definition retryTask ::
  "WABinary \<Rightarrow> Utils \<Rightarrow> AuthCreds \<Rightarrow> IO \<Rightarrow> bool \<Rightarrow> RetryMap \<Rightarrow> BinaryNode \<Rightarrow> RetryMap \<times> Effect list" where
  "retryTask wb ut creds io wsOpen m stanza =
     (if wsOpen
      then (case sendRetryRequest wb ut creds io m stanza of (m', es, r) \<Rightarrow> (m', es))
      else (m, []))"

text \<open>
  The handler body under the per-chat mutex. The result is the retry map, the effects
  of the handler in order, and the effects of the retry task it started.
\<close>

definition onMessage ::
  "WABinary \<Rightarrow> Utils \<Rightarrow> AuthCreds \<Rightarrow> IO \<Rightarrow> bool \<Rightarrow> SocketState \<Rightarrow> BinaryNode \<Rightarrow> DecodedStanza
     \<Rightarrow> RetryMap \<times> Effect list \<times> Effect list" where
  "onMessage wb ut creds io wsOpen st stanza d =
     (let ack = sendMessageAck stanza Map.empty @ [Call AwaitDecryption];
          m = msgRetryMap st
      in case decryptionTask d of
           Inl e \<Rightarrow> (m, ack @ [Call (OnUnexpectedError e ''processing message'')], [])
         | Inr msg \<Rightarrow>
             if wm_stubType msg = Some CIPHERTEXT
             then (case retryTask wb ut creds io wsOpen m stanza of
                     (m', rs) \<Rightarrow> (m', ack @ cleanAndUpsert ut creds stanza msg, rs))
             else
               (let ty = deliveryReceiptType st d msg;
                    p = deliveryReceiptParticipant wb d msg;
                    c = Call (SendReceipt (remoteJid (key msg)) p [key_id (key msg)] ty)
                in case sendReceipt io (remoteJid (key msg)) p [key_id (key msg)] ty of
                     Some e \<Rightarrow> (m, ack @ [c, Call (OnUnexpectedError e ''processing message'')], [])
                   | None \<Rightarrow> (m, ack @ [c] @ cleanAndUpsert ut creds stanza msg, [])))"

section \<open>The decryption task beside the handler\<close>




section \<open>Outbound Media Prep: \<open>prepareMediaMessage\<close>\<close>

datatype MessageType =
    mt_text | mt_extendedText | mt_location | mt_liveLocation | mt_contact
  | mt_image | mt_video | mt_audio | mt_document | mt_sticker

record MessageOptions =
  mimetype :: jsstring
  caption :: jsstring
  thumbnail :: jsstring

record MediaKeys =
  iv :: bytes
  cipherKey :: bytes
  macKey :: bytes

text \<open>
  The collaborators of the media path, none of them part of the sources: the
  cryptographic helpers of \<open>../WAConnection/Utils\<close>, \<open>getMediaKeys\<close> and
  \<open>generateThumbnail\<close> of \<open>./Utils\<close>, the tables of \<open>./Constants\<close>, the \<open>mediaConn\<close>
  query (the auth token and the host names) and the HTTP upload (the \<open>url\<close> field of
  the response). \<open>randomBytes32\<close> is the value of \<open>randomBytes(32)\<close>.
\<close>

record MediaEnv =
  randomBytes32 :: bytes
  getMediaKeys :: "bytes \<Rightarrow> MessageType \<Rightarrow> MediaKeys"
  aesEncrypWithIV :: "bytes \<Rightarrow> bytes \<Rightarrow> bytes \<Rightarrow> bytes"
  hmacSign :: "bytes \<Rightarrow> bytes \<Rightarrow> bytes"
  sha256 :: "bytes \<Rightarrow> bytes"
  generateThumbnail :: "bytes \<Rightarrow> MessageType \<Rightarrow> MessageOptions \<Rightarrow> error + MessageOptions"
  MimetypeMap :: "MessageType \<Rightarrow> jsstring"
  Mimetype_gif :: string
  MediaPathMap :: "MessageType \<Rightarrow> jsstring"
  queryMediaConn :: "error + (jsstring \<times> jsstring list)"
  fetchPost :: "string \<Rightarrow> bytes \<Rightarrow> error + jsstring"

text \<open>\<open>Buffer.prototype.toString('base64')\<close>: standard base64 with padding.\<close>

definition b64char :: "nat \<Rightarrow> char" where
  "b64char n = ''ABCDEFGHIJKLMNOPQRSTUVWXYZabcdefghijklmnopqrstuvwxyz0123456789+/'' ! n"

fun base64 :: "bytes \<Rightarrow> string" where
  "base64 [] = []"
| "base64 [a] =
     [b64char (unat a div 4), b64char ((unat a mod 4) * 16), CHR ''='', CHR ''='']"
| "base64 [a, b] =
     [b64char (unat a div 4), b64char ((unat a mod 4) * 16 + unat b div 16),
      b64char ((unat b mod 16) * 4), CHR ''='']"
| "base64 (a # b # c # rest) =
     [b64char (unat a div 4), b64char ((unat a mod 4) * 16 + unat b div 16),
      b64char ((unat b mod 16) * 4 + unat c div 64), b64char (unat c mod 64)] @ base64 rest"

text \<open>
  The three \<open>replace\<close> calls: every \<open>+\<close> becomes \<open>-\<close>, every \<open>/\<close> becomes \<open>_\<close>, and the
  run of \<open>=\<close> at the end of the string is removed.
\<close>

definition replaceAll :: "char \<Rightarrow> char \<Rightarrow> string \<Rightarrow> string" where
  "replaceAll c d s = map (\<lambda>x. if x = c then d else x) s"

definition stripTrailingEquals :: "string \<Rightarrow> string" where
  "stripTrailingEquals s = rev (dropWhile (\<lambda>x. x = CHR ''='') (rev s))"

definition urlSafeBase64 :: "bytes \<Rightarrow> string" where
  "urlSafeBase64 b =
     stripTrailingEquals (replaceAll (CHR ''/'') (CHR ''_'') (replaceAll (CHR ''+'') (CHR ''-'') (base64 b)))"

record MediaContent =
  url :: string
  mediaKey :: string
  mc_mimetype :: jsstring
  fileEncSha256 :: string
  fileSha256 :: string
  fileLength :: nat
  gifPlayback :: "bool option"

text \<open>The encrypted body: \<open>enc\<close> followed by the first ten bytes of the HMAC.\<close>

definition mediaEnc :: "MediaEnv \<Rightarrow> MediaKeys \<Rightarrow> bytes \<Rightarrow> bytes" where
  "mediaEnc env ks buffer = aesEncrypWithIV env buffer (cipherKey ks) (iv ks)"

definition mediaMac :: "MediaEnv \<Rightarrow> MediaKeys \<Rightarrow> bytes \<Rightarrow> bytes" where
  "mediaMac env ks buffer = take 10 (hmacSign env (iv ks @ mediaEnc env ks buffer) (macKey ks))"

definition mediaBody :: "MediaEnv \<Rightarrow> MediaKeys \<Rightarrow> bytes \<Rightarrow> bytes" where
  "mediaBody env ks buffer = mediaEnc env ks buffer @ mediaMac env ks buffer"

definition uploadUrl :: "MediaEnv \<Rightarrow> MessageType \<Rightarrow> jsstring \<Rightarrow> jsstring \<Rightarrow> string \<Rightarrow> string" where
  "uploadUrl env mediaType auth hostname fileEncSha256B64 =
     ''https://'' @ propKey hostname @ propKey (MediaPathMap env mediaType) @ ''/'' @ fileEncSha256B64
       @ ''?auth='' @ propKey auth @ ''&token='' @ fileEncSha256B64"

definition prepareMediaMessage ::
  "MediaEnv \<Rightarrow> bytes \<Rightarrow> MessageType \<Rightarrow> MessageOptions \<Rightarrow> error + (MessageType \<times> MediaContent)" where
  "prepareMediaMessage env buffer mediaType options =
     (if mediaType = mt_document \<and> \<not> truthy (mimetype options)
      then Inl (Rejected ''mimetype required to send a document'')
      else if mediaType = mt_sticker \<and> truthy (caption options)
      then Inl (Rejected ''cannot send a caption with a sticker'')
      else
        (let o1 = (if \<not> truthy (mimetype options)
                   then options\<lparr>mimetype := MimetypeMap env mediaType\<rparr> else options);
             isGIF = (mimetype o1 = Some (Mimetype_gif env));
             o2 = (if isGIF then o1\<lparr>mimetype := MimetypeMap env mt_video\<rparr> else o1);
             mediaKey = randomBytes32 env;
             mediaKeys = getMediaKeys env mediaKey mediaType;
             body = mediaBody env mediaKeys buffer;
             fileSha256 = sha256 env buffer;
             fileEncSha256B64 = urlSafeBase64 (sha256 env body)
         in case generateThumbnail env buffer mediaType o2 of
              Inl e \<Rightarrow> Inl e
            | Inr o3 \<Rightarrow>
                (case queryMediaConn env of
                   Inl e \<Rightarrow> Inl e
                 | Inr (auth, hosts) \<Rightarrow>
                     (case hosts of
                        [] \<Rightarrow> Inl TypeError
                      | hostname # _ \<Rightarrow>
                          (case fetchPost env (uploadUrl env mediaType auth hostname fileEncSha256B64) body of
                             Inl e \<Rightarrow> Inl e
                           | Inr responseUrl \<Rightarrow>
                               if \<not> truthy responseUrl then Inl (Rejected ''UPLOAD FAILED GOT: '')
                               else Inr (mediaType,
                                         \<lparr> url = propKey responseUrl,
                                           mediaKey = base64 mediaKey,
                                           mc_mimetype = mimetype o3,
                                           fileEncSha256 = fileEncSha256B64,
                                           fileSha256 = base64 fileSha256,
                                           fileLength = length buffer,
                                           gifPlayback = (if isGIF then Some True else None) \<rparr>))))))"

section \<open>Reading an effect trace\<close>

fun isAck :: "Effect \<Rightarrow> bool" where
  "isAck (SendNode n) = (tag n = ''ack'')"
| "isAck _ = False"


fun isEmit :: "Effect \<Rightarrow> bool" where
  "isEmit (Emit e) = True"
| "isEmit _ = False"

fun isCall :: "Effect \<Rightarrow> bool" where
  "isCall (Call c) = True"
| "isCall _ = False"


text \<open>The message keys an effect carries: those of the status updates and of the store lookups.\<close>

fun effectKeys :: "Effect \<Rightarrow> MessageKey list" where
  "effectKeys (Emit (MessageReceiptUpdate us)) = map fst us"
| "effectKeys (Emit (MessagesUpdate us)) = map fst us"
| "effectKeys (Call (GetMessage k)) = [k]"
| "effectKeys _ = []"

text \<open>The upsert types an effect carries.\<close>

fun upsertTypes :: "Effect \<Rightarrow> UpsertType list" where
  "upsertTypes (Emit (MessagesUpsert msgs ty)) = [ty]"
| "upsertTypes _ = []"

text \<open>The stanzas a trace sends, and the tags of the children of a stanza.\<close>

fun sentNodes :: "Effect list \<Rightarrow> BinaryNode list" where
  "sentNodes [] = []"
| "sentNodes (SendNode n # es) = n # sentNodes es"
| "sentNodes (e # es) = sentNodes es"

definition childTags :: "BinaryNode \<Rightarrow> string list" where
  "childTags n = (case content n of Nodes cs \<Rightarrow> map tag cs | _ \<Rightarrow> [])"

section \<open>A sample instance of the collaborators\<close>

text \<open>
  The theorems below hold for every instance of the collaborators. The instance here
  is used to run the model on concrete stanzas: a JID is split at its \<open>@\<close>, the child
  helpers select by tag, \<open>jidNormalizedUser\<close> throws on what does not decode, receipt
  types map to statuses as the receipt interpreter expects, a string of decimal digits
  compares as the number it spells and any other string as \<open>NaN\<close>, and every
  collaborator that can reject succeeds.
\<close>

definition jidUser :: "string \<Rightarrow> string" where
  "jidUser j = takeWhile (\<lambda>c. c \<noteq> CHR ''@'') j"

definition jidServer :: "string \<Rightarrow> string" where
  "jidServer j = drop 1 (dropWhile (\<lambda>c. c \<noteq> CHR ''@'') j)"

fun digitsValue :: "nat \<Rightarrow> string \<Rightarrow> nat option" where
  "digitsValue acc [] = Some acc"
| "digitsValue acc (c # cs) =
     (if 48 \<le> (of_char c :: nat) \<and> (of_char c :: nat) \<le> 57
      then digitsValue (acc * 10 + (of_char c - 48)) cs else None)"

definition digitsToNat :: "string \<Rightarrow> nat option" where
  "digitsToNat s = digitsValue 0 s"

definition sampleWABinary :: WABinary where
  "sampleWABinary =
     \<lparr> areJidsSameUser = (\<lambda>a b. map_option jidUser a = map_option jidUser b),
       isJidGroup = (\<lambda>j. case j of None \<Rightarrow> False | Some s \<Rightarrow> jidServer s = ''g.us''),
       isJidUser = (\<lambda>j. case j of None \<Rightarrow> False | Some s \<Rightarrow> jidServer s = ''s.whatsapp.net''),
       jidDecode = (\<lambda>s. if CHR ''@'' \<in> set s then Some \<lparr> user = jidUser s, device = None \<rparr> else None),
       jidEncode = (\<lambda>u s d a. u @ ''@'' @ s),
       jidNormalizedUser =
         (\<lambda>j. case j of
                None \<Rightarrow> Inl TypeError
              | Some s \<Rightarrow> if CHR ''@'' \<in> set s then Inr (jidUser s @ ''@'' @ jidServer s)
                          else Inl TypeError),
       getBinaryNodeChildren =
         (\<lambda>n t. case n of
                  None \<Rightarrow> []
                | Some nd \<Rightarrow> (case content nd of Nodes cs \<Rightarrow> filter (\<lambda>c. tag c = t) cs | _ \<Rightarrow> [])),
       getAllBinaryNodeChildren = (\<lambda>nd. case content nd of Nodes cs \<Rightarrow> cs | _ \<Rightarrow> []),
       getBinaryNodeChild =
         (\<lambda>nd t. case content nd of Nodes cs \<Rightarrow> find (\<lambda>c. tag c = t) cs | _ \<Rightarrow> None),
       S_WHATSAPP_NET = ''@s.whatsapp.net'' \<rparr>"

definition sampleUtils :: Utils where
  "sampleUtils =
     \<lparr> getStatusFromReceiptType =
         (\<lambda>t. case t of
                None \<Rightarrow> Some DELIVERY_ACK
              | Some s \<Rightarrow> if s = ''read'' \<or> s = ''read-self'' then Some READ
                          else if s = ''played'' then Some PLAYED else None),
       encodeBigEndian = (\<lambda>n. [0, 0, of_nat (n div 256), of_nat n]),
       generateSignalPubKey = (\<lambda>b. b @ b),
       KEY_BUNDLE_TYPE = [5],
       xmppPreKey =
         (\<lambda>k i. BinaryNode ''key'' Map.empty
                  (Nodes [BinaryNode ''id'' Map.empty (Buffer [0, 0, of_nat i]),
                          BinaryNode ''value'' Map.empty (Buffer (kp_public k))])),
       xmppSignedPreKey =
         (\<lambda>k. BinaryNode ''skey'' Map.empty
                (Nodes [BinaryNode ''id'' Map.empty (Buffer [0, 0, of_nat (skp_keyId k)]),
                        BinaryNode ''value'' Map.empty (Buffer (kp_public (keyPair k))),
                        BinaryNode ''signature'' Map.empty (Buffer (signature k))])),
       encodeADV = (\<lambda>a. map (\<lambda>c. of_nat (of_char c)) a),
       extractGroupMetadata =
         (\<lambda>n. Inr \<lparr> gm_id = propKey (attrs n ''id''), subject = attrs n ''subject'',
                     owner = attrs n ''creator'', creation = Some (ToNumber (attrs n ''creation'')) \<rparr>),
       decodeMediaRetryNode = (\<lambda>n. Inr (propKey (attrs n ''id''))),
       MIN_PREKEY_COUNT = 5,
       numberLess = (\<lambda>v n. case v of Some [c] \<Rightarrow> of_char c - 48 < n | _ \<Rightarrow> False),
       strLess = (\<lambda>s n. case digitsToNat s of None \<Rightarrow> False | Some v \<Rightarrow> v < n),
       strGreater = (\<lambda>s n. case digitsToNat s of None \<Rightarrow> False | Some v \<Rightarrow> v > n),
       strGreaterEq = (\<lambda>s n. case digitsToNat s of None \<Rightarrow> False | Some v \<Rightarrow> v \<ge> n),
       cleanMessage = (\<lambda>msg j. msg) \<rparr>"

definition sampleCreds :: AuthCreds where
  "sampleCreds =
     \<lparr> account = ''account'',
       signedPreKey = \<lparr> keyPair = \<lparr> kp_public = [1, 2], kp_private = [3, 4] \<rparr>,
                        signature = [9, 9], skp_keyId = 1 \<rparr>,
       signedIdentityKey = \<lparr> kp_public = [5, 6], kp_private = [7, 8] \<rparr>,
       registrationId = 258,
       me = Some ''me@s.whatsapp.net'' \<rparr>"

definition sampleIO :: IO where
  "sampleIO =
     \<lparr> getNextPreKeys = Inr (''nextPreKeyId'', 7, \<lparr> kp_public = [10, 11], kp_private = [12, 13] \<rparr>),
       getMessage = (\<lambda>k. Inr (Some (Content ''hello''))),
       assertSessions = (\<lambda>js force. None),
       keysSet = (\<lambda>j. None),
       relayMessage = (\<lambda>j msg i p. None),
       sendReceipt = (\<lambda>j p ids ty. None) \<rparr>"


section \<open>Sample stanzas\<close>

text \<open>A read receipt in a group for two message ids.\<close>

definition sampleReadReceipt :: BinaryNode where
  "sampleReadReceipt =
     BinaryNode ''receipt''
       (Map.empty(''id'' \<mapsto> ''A1'', ''from'' \<mapsto> ''123-456@g.us'',
                  ''participant'' \<mapsto> ''bob@s.whatsapp.net'', ''type'' \<mapsto> ''read'', ''t'' \<mapsto> ''1000''))
       (Nodes [BinaryNode ''list'' Map.empty
                 (Nodes [BinaryNode ''item'' (Map.empty(''id'' \<mapsto> ''A2'')) NoContent])])"

text \<open>A delivery receipt of a one-to-one chat: no \<open>type\<close> attribute.\<close>

definition sampleDeliveryReceipt :: BinaryNode where
  "sampleDeliveryReceipt =
     BinaryNode ''receipt''
       (Map.empty(''id'' \<mapsto> ''A1'', ''from'' \<mapsto> ''alice@s.whatsapp.net'', ''t'' \<mapsto> ''1000''))
       NoContent"

text \<open>A retry receipt from a peer for a message of ours.\<close>

definition sampleRetryReceipt :: BinaryNode where
  "sampleRetryReceipt =
     BinaryNode ''receipt''
       (Map.empty(''id'' \<mapsto> ''X'', ''type'' \<mapsto> ''retry'', ''from'' \<mapsto> ''carol@s.whatsapp.net'',
                  ''participant'' \<mapsto> ''carol@s.whatsapp.net'', ''t'' \<mapsto> ''1000''))
       NoContent"

text \<open>An inbound message stanza of a one-to-one chat, and one of a group.\<close>

definition sampleMessage :: BinaryNode where
  "sampleMessage =
     BinaryNode ''message''
       (Map.empty(''id'' \<mapsto> ''A1'', ''from'' \<mapsto> ''alice@s.whatsapp.net'', ''t'' \<mapsto> ''1000''))
       NoContent"

definition sampleGroupMessage :: BinaryNode where
  "sampleGroupMessage =
     BinaryNode ''message''
       (Map.empty(''id'' \<mapsto> ''A1'', ''from'' \<mapsto> ''123-456@g.us'',
                  ''participant'' \<mapsto> ''bob@s.whatsapp.net'', ''t'' \<mapsto> ''1000''))
       NoContent"

text \<open>A group notification: bob removes himself.\<close>

definition sampleRemoveNotification :: BinaryNode where
  "sampleRemoveNotification =
     BinaryNode ''notification''
       (Map.empty(''id'' \<mapsto> ''N1'', ''type'' \<mapsto> ''w:gp2'', ''from'' \<mapsto> ''123-456@g.us'',
                  ''participant'' \<mapsto> ''bob@s.whatsapp.net'', ''t'' \<mapsto> ''1000'', ''offline'' \<mapsto> ''1''))
       (Nodes [BinaryNode ''remove'' Map.empty
                 (Nodes [BinaryNode ''participant'' (Map.empty(''jid'' \<mapsto> ''bob@s.whatsapp.net''))
                           NoContent])])"

text \<open>The collaborators with a transport that rejects every relay.\<close>

definition rejectingIO :: IO where
  "rejectingIO = sampleIO\<lparr> relayMessage := (\<lambda>j msg i p. Some (Rejected ''connection closed'')) \<rparr>"

text \<open>
  What \<open>decodeMessageStanza\<close> gives for \<open>sampleMessage\<close>: once with a decryption that
  succeeds, once with one that fails and leaves the ciphertext stub.
\<close>

definition sampleWebMessage :: WebMessageInfo where
  "sampleWebMessage =
     \<lparr> key = \<lparr> remoteJid = Some ''alice@s.whatsapp.net'', key_id = Some ''A1'', fromMe = False,
                participant = None \<rparr>,
       wm_stubType = None, wm_stubParameters = None,
       wm_message = Some (Content ''hello''), wm_participant = None,
       messageTimestamp = Some (ToNumber (Some ''1000'')) \<rparr>"

definition sampleDecrypted :: DecodedStanza where
  "sampleDecrypted =
     \<lparr> category = None, author = Some ''alice@s.whatsapp.net'',
       decryptionTask = Inr sampleWebMessage \<rparr>"

definition sampleCiphertext :: DecodedStanza where
  "sampleCiphertext =
     \<lparr> category = None, author = Some ''alice@s.whatsapp.net'',
       decryptionTask = Inr (sampleWebMessage\<lparr> wm_stubType := Some CIPHERTEXT, wm_message := None \<rparr>) \<rparr>"

definition sampleState :: SocketState where
  "sampleState = \<lparr> msgRetryMap = Map.empty, sendActiveReceipts = False \<rparr>"


section \<open>A sample instance of the media collaborators\<close>

text \<open>
  Stand-ins for the collaborators of the media path, to run \<open>prepareMediaMessage\<close> on a
  concrete buffer. The cipher only pads, the MAC is a constant, and \<open>sha256\<close> gives
  the SHA-256 digest of the empty buffer on the empty buffer and a fixed 32-byte value
  on every other input; the upload succeeds.
\<close>

definition sampleMediaEnv :: MediaEnv where
  "sampleMediaEnv =
     \<lparr> randomBytes32 = replicate 32 7,
       getMediaKeys = (\<lambda>k t. \<lparr> iv = take 16 k, cipherKey = k, macKey = rev k \<rparr>),
       aesEncrypWithIV = (\<lambda>b k v. b @ replicate (16 - length b mod 16) (of_nat (16 - length b mod 16))),
       hmacSign = (\<lambda>d k. replicate 32 1),
       sha256 =
         (\<lambda>b. if b = []
              then [227, 176, 196, 66, 152, 252, 28, 20, 154, 251, 244, 200, 153, 111, 185, 36,
                    39, 174, 65, 228, 100, 155, 147, 76, 164, 149, 153, 27, 120, 82, 184, 85]
              else replicate 32 251),
       generateThumbnail = (\<lambda>b t opts. Inr opts),
       MimetypeMap =
         (\<lambda>t. if t = mt_image then Some ''image/jpeg''
              else if t = mt_video then Some ''video/mp4'' else None),
       Mimetype_gif = ''image/gif'',
       MediaPathMap = (\<lambda>t. if t = mt_image then Some ''/mms/image'' else Some ''/mms/document''),
       queryMediaConn = Inr (Some ''AUTH'', [Some ''mmg.whatsapp.net'']),
       fetchPost = (\<lambda>u b. Inr (Some ''https://mmg.whatsapp.net/d/f/abc.enc'')) \<rparr>"

definition sampleOptions :: MessageOptions where
  "sampleOptions = \<lparr> mimetype = None, caption = None, thumbnail = None \<rparr>"

text \<open>A read receipt of a one-to-one chat whose content is an empty array.\<close>

definition sampleEmptyListReceipt :: BinaryNode where
  "sampleEmptyListReceipt =
     BinaryNode ''receipt''
       (Map.empty(''id'' \<mapsto> ''A1'', ''from'' \<mapsto> ''alice@s.whatsapp.net'', ''type'' \<mapsto> ''read'',
                  ''t'' \<mapsto> ''1000''))
       (Nodes [])"

text \<open>A read receipt of a group that names no participant.\<close>

definition sampleAnonymousGroupReceipt :: BinaryNode where
  "sampleAnonymousGroupReceipt =
     BinaryNode ''receipt''
       (Map.empty(''id'' \<mapsto> ''A1'', ''from'' \<mapsto> ''123-456@g.us'', ''type'' \<mapsto> ''read'',
                  ''t'' \<mapsto> ''1000''))
       NoContent"


section \<open>Lemmas on the effect traces and the retry map\<close>

lemma relayLoop_calls: "relayLoop io k p m xs = (m', es, r) \<Longrightarrow> \<forall>e\<in>set es. isCall e"
proof (induction io k p m xs arbitrary: m' es r rule: relayLoop.induct)
  case (1 io k p m)
  then show ?case by simp
next
  case (2 io k p m i rest)
  then show ?case by simp
next
  case (3 io k p m i msg rest)
  show ?case
  proof (cases "relayMessage io (remoteJid k) msg i p")
    case None
    obtain m2 es2 r2 where
      rec: "relayLoop io k p (bumpRetry m i) rest = (m2, es2, r2)"
      by (metis prod_cases3)
    have "\<forall>e\<in>set es2. isCall e"
      using "3.IH" [OF None rec] .
    moreover have "es = Call (RelayMessage (remoteJid k) msg i p) # es2"
      using "3.prems" None rec by simp
    ultimately show ?thesis by simp
  next
    case (Some e)
    then show ?thesis using "3.prems" by auto
  qed
qed

lemma sendMessagesAgain_calls:
  "sendMessagesAgain wb io m k ids = (m', es, r) \<Longrightarrow> \<forall>e\<in>set es. isCall e"
  by (auto simp: sendMessagesAgain_def Let_def split: sum.splits option.splits prod.splits if_splits
           dest!: relayLoop_calls)

lemma receiptUpdates_emits:
  "receiptUpdates wb ut creds node ids = Inr ups \<Longrightarrow> \<forall>e\<in>set ups. isEmit e"
  by (auto simp: receiptUpdates_def Let_def split: option.splits if_splits sum.splits)

lemma filter_none: "\<forall>e\<in>set es. \<not> P e \<Longrightarrow> filter P es = []"
  by (induction es) auto

lemma filter_all: "\<forall>e\<in>set es. P e \<Longrightarrow> filter P es = es"
  by (induction es) auto

lemma isCall_not_ack: "isCall e \<Longrightarrow> \<not> isAck e"
  by (cases e) auto

lemma isEmit_not_ack: "isEmit e \<Longrightarrow> \<not> isAck e"
  by (cases e) auto

lemma isCall_not_emit: "isCall e \<Longrightarrow> \<not> isEmit e"
  by (cases e) auto

lemma receiptResend_calls:
  "receiptResend wb ut creds io m node ids = (m', es, ack) \<Longrightarrow> \<forall>e\<in>set es. isCall e"
  by (auto simp: receiptResend_def Let_def split: if_splits prod.splits option.splits
           dest!: sendMessagesAgain_calls)

lemma ackStanza_tag [simp]: "tag (ackStanza node extra) = ''ack''"
  by (simp add: ackStanza_def Let_def)

lemma relayLoop_keys:
  "relayLoop io k p m xs = (m', es, r) \<Longrightarrow> \<forall>e\<in>set es. effectKeys e = []"
proof (induction io k p m xs arbitrary: m' es r rule: relayLoop.induct)
  case (1 io k p m)
  then show ?case by simp
next
  case (2 io k p m i rest)
  then show ?case by simp
next
  case (3 io k p m i msg rest)
  show ?case
  proof (cases "relayMessage io (remoteJid k) msg i p")
    case None
    obtain m2 es2 r2 where
      rec: "relayLoop io k p (bumpRetry m i) rest = (m2, es2, r2)"
      by (metis prod_cases3)
    have "\<forall>e\<in>set es2. effectKeys e = []"
      using "3.IH" [OF None rec] .
    moreover have "es = Call (RelayMessage (remoteJid k) msg i p) # es2"
      using "3.prems" None rec by simp
    ultimately show ?thesis by simp
  next
    case (Some e)
    then show ?thesis using "3.prems" by auto
  qed
qed

lemma sendMessagesAgain_keys:
  assumes "sendMessagesAgain wb io m k ids = (m', es, r)"
  shows "\<forall>e\<in>set es. \<forall>k'\<in>set (effectKeys e). remoteJid k' = remoteJid k \<and> fromMe k' = fromMe k"
  using assms
  by (auto simp: sendMessagesAgain_def Let_def
           split: sum.splits option.splits prod.splits if_splits
           dest!: relayLoop_keys)

lemma receiptUpdates_keys:
  "receiptUpdates wb ut creds node ids = Inr ups \<Longrightarrow>
   \<forall>e\<in>set ups. \<forall>k\<in>set (effectKeys e).
     remoteJid k = remoteJid (receiptKey wb creds node) \<and> fromMe k = fromMe (receiptKey wb creds node)"
  by (auto simp: receiptUpdates_def Let_def split: option.splits if_splits sum.splits)

lemma receiptResend_keys:
  assumes "receiptResend wb ut creds io m node ids = (m', es, ack)"
  shows "\<forall>e\<in>set es. \<forall>k\<in>set (effectKeys e).
     remoteJid k = remoteJid (receiptKey wb creds node) \<and> fromMe k = fromMe (receiptKey wb creds node)"
proof (cases "attrs node ''type'' = Some ''retry''
     \<and> willSendMessageAgain ut m (case ids of [] \<Rightarrow> None | i # _ \<Rightarrow> i)
     \<and> fromMe (receiptKey wb creds node)")
  case True
  obtain m2 es2 r2 where
    s: "sendMessagesAgain wb io m
          ((receiptKey wb creds node)
             \<lparr>participant := js_or (participant (receiptKey wb creds node)) (attrs node ''from'')\<rparr>)
          ids = (m2, es2, r2)"
    by (metis prod_cases3)
  have "es = es2"
    using assms True s by (auto simp: receiptResend_def Let_def split: option.splits)
  then show ?thesis
    using sendMessagesAgain_keys [OF s] by simp
next
  case False
  then have "es = []"
    using assms by (auto simp: receiptResend_def Let_def)
  then show ?thesis by simp
qed

lemma toUpperCase_tags:
  "toUpperCase ''promote'' = ''PROMOTE''"
  "toUpperCase ''demote'' = ''DEMOTE''"
  "toUpperCase ''remove'' = ''REMOVE''"
  "toUpperCase ''add'' = ''ADD''"
  "toUpperCase ''leave'' = ''LEAVE''"
  by code_simp+

lemma stub_lookup_tags:
  "WAMessageStubType_lookup (''GROUP_PARTICIPANT_'' @ toUpperCase ''promote'') = Some GROUP_PARTICIPANT_PROMOTE"
  "WAMessageStubType_lookup (''GROUP_PARTICIPANT_'' @ toUpperCase ''demote'') = Some GROUP_PARTICIPANT_DEMOTE"
  "WAMessageStubType_lookup (''GROUP_PARTICIPANT_'' @ toUpperCase ''remove'') = Some GROUP_PARTICIPANT_REMOVE"
  "WAMessageStubType_lookup (''GROUP_PARTICIPANT_'' @ toUpperCase ''add'') = Some GROUP_PARTICIPANT_ADD"
  "WAMessageStubType_lookup (''GROUP_PARTICIPANT_'' @ toUpperCase ''leave'') = Some GROUP_PARTICIPANT_LEAVE"
  by (simp_all add: toUpperCase_tags WAMessageStubType_lookup_def)

lemma processNotification_no_upsert:
  "processNotification wb ut creds node = Inr (es, r) \<Longrightarrow> \<forall>e\<in>set es. upsertTypes e = []"
  by (auto simp: processNotification_def processGroupNotification_def handleEncryptNotification_def
        Let_def split: if_splits sum.splits option.splits prod.splits list.splits)

lemma cleanAndUpsert_types:
  "\<forall>e\<in>set (cleanAndUpsert ut creds stanza msg). \<forall>ty\<in>set (upsertTypes e).
     ty = (if truthy (attrs stanza ''offline'') then upsert_append else upsert_notify)"
  by (auto simp: cleanAndUpsert_def split: option.splits)












lemma receiptIds_head:
  "receiptIds wb node = Inr ids \<Longrightarrow> (case ids of [] \<Rightarrow> None | i # _ \<Rightarrow> i) = attrs node ''id''"
  by (auto simp: receiptIds_def split: NodeContent.splits list.splits)





lemma sendRetryRequest_capped:
  "counterGe ut (counterOr (readProp m (propKey (attrs node ''id''))) 1) 5
     \<Longrightarrow> fst (snd (sendRetryRequest wb ut creds io m node)) = []"
  by (simp add: sendRetryRequest_def Let_def)

lemma sendRetryRequest_sent:
  assumes "SendNode receipt \<in> set (fst (snd (sendRetryRequest wb ut creds io m node)))"
  shows "\<not> counterGe ut (counterOr (readProp m (propKey (attrs node ''id''))) 1) 5 \<and>
         (\<exists>update keyId ky. getNextPreKeys io = Inr (update, keyId, ky) \<and>
            retryReceipt wb ut creds node (counterOr (readProp m (propKey (attrs node ''id''))) 1)
              keyId ky = Inr receipt)"
  using assms
  by (auto simp: sendRetryRequest_def Let_def split: if_splits sum.splits prod.splits)


lemma retryReceipt_shape:
  assumes "retryReceipt wb ut creds node rc keyId ky = Inr receipt"
  shows "tag receipt = ''receipt'' \<and> attrs receipt ''type'' = Some ''retry'' \<and>
      (\<exists>retry registration.
         tag retry = ''retry'' \<and> attrs retry ''count'' = Some (counterText rc) \<and>
         tag registration = ''registration'' \<and>
         content receipt = Nodes ([retry, registration] @
           (if counterGt ut rc 1 then [keysBundle ut creds keyId ky] else [])))"
  using assms
  by (auto simp: retryReceipt_def Let_def split: if_splits sum.splits option.splits)

lemma sendRetryRequest_group:
  assumes "\<not> counterGe ut (counterOr (readProp m (propKey (attrs node ''id''))) 1) 5"
    and "getNextPreKeys io = Inr (update, keyId, ky)"
    and "truthy (attrs node ''participant'')"
  shows "\<exists>receipt. fst (snd (sendRetryRequest wb ut creds io m node)) =
           [SendNode receipt, Emit (CredsUpdateEv update)]"
  using assms by (auto simp: sendRetryRequest_def retryReceipt_def Let_def)

lemma counterOr_one_ge: "counterOr v 1 = CNum c \<Longrightarrow> 1 \<le> c"
  by (auto simp: counterOr_def split: option.splits counter.splits if_splits)










lemma replaceAll_removes: "c \<noteq> d \<Longrightarrow> c \<notin> set (replaceAll c d s)"
  by (auto simp: replaceAll_def)

lemma replaceAll_keeps_out: "c \<notin> set s \<Longrightarrow> c \<noteq> d \<Longrightarrow> c \<notin> set (replaceAll a d s)"
  by (auto simp: replaceAll_def)

lemma stripTrailingEquals_subset: "set (stripTrailingEquals s) \<subseteq> set s"
  using set_dropWhileD by (fastforce simp: stripTrailingEquals_def)

lemma stripTrailingEquals_last:
  "stripTrailingEquals s = [] \<or> last (stripTrailingEquals s) \<noteq> CHR ''=''"
proof (cases "dropWhile (\<lambda>x. x = CHR ''='') (rev s)")
  case Nil
  then show ?thesis by (simp add: stripTrailingEquals_def)
next
  case (Cons y ys)
  then have "y \<noteq> CHR ''=''"
    using hd_dropWhile [of "\<lambda>x. x = CHR ''=''" "rev s"] by auto
  then show ?thesis
    using Cons by (simp add: stripTrailingEquals_def)
qed

lemma urlSafeBase64_alphabet:
  "CHR ''+'' \<notin> set (urlSafeBase64 b) \<and> CHR ''/'' \<notin> set (urlSafeBase64 b) \<and>
   (urlSafeBase64 b = [] \<or> last (urlSafeBase64 b) \<noteq> CHR ''='')"
proof -
  let ?s1 = "replaceAll (CHR ''+'') (CHR ''-'') (base64 b)"
  let ?s2 = "replaceAll (CHR ''/'') (CHR ''_'') ?s1"
  have p: "CHR ''+'' \<notin> set ?s1"
    by (rule replaceAll_removes) simp
  have p2: "CHR ''+'' \<notin> set ?s2"
    using p by (rule replaceAll_keeps_out) simp
  have s2: "CHR ''/'' \<notin> set ?s2"
    by (rule replaceAll_removes) simp
  show ?thesis
    using p2 s2 stripTrailingEquals_subset [of ?s2] stripTrailingEquals_last [of ?s2]
    by (auto simp: urlSafeBase64_def)
qed

lemma base64_padded:
  "length b mod 3 \<noteq> 0 \<Longrightarrow> base64 b \<noteq> [] \<and> last (base64 b) = CHR ''=''"
proof (induction b rule: base64.induct)
  case 1
  then show ?case by simp
next
  case (2 a)
  then show ?case by simp
next
  case (3 a b)
  then show ?case by simp
next
  case (4 a b c rest)
  then have "length rest mod 3 \<noteq> 0"
    by (simp add: mod_Suc split: if_splits)
  then show ?case
    using "4.IH" by simp
qed



section \<open>The claims\<close>




text \<open>
  Claim C2, amended. When \<open>prepareMediaMessage\<close> returns, with
  \<open>enc = AES-CBC(cipherKey, iv, buffer)\<close>, \<open>mac\<close> the first ten bytes of
  \<open>HMAC-SHA256(macKey, iv || enc)\<close> and \<open>body = enc || mac\<close>, the body is what was
  uploaded, \<open>fileEncSha256\<close> is the base64 of \<open>SHA256(body)\<close> made URL-safe and
  stripped of its padding (no \<open>+\<close>, no \<open>/\<close>, no trailing \<open>=\<close>), and \<open>fileSha256\<close> is the
  standard base64 of \<open>SHA256(buffer)\<close>, padding included: for a 32-byte digest it ends
  with \<open>=\<close>.
\<close>

theorem prepareMediaMessage_content:
  assumes "prepareMediaMessage env buffer mediaType options = Inr (ty, c)"
  shows "(let ks = getMediaKeys env (randomBytes32 env) mediaType;
              enc = aesEncrypWithIV env buffer (cipherKey ks) (iv ks);
              mac = take 10 (hmacSign env (iv ks @ enc) (macKey ks));
              body = enc @ mac
          in ty = mediaType \<and>
             fileSha256 c = base64 (sha256 env buffer) \<and>
             fileEncSha256 c =
               stripTrailingEquals (replaceAll (CHR ''/'') (CHR ''_'')
                 (replaceAll (CHR ''+'') (CHR ''-'') (base64 (sha256 env body)))) \<and>
             (\<exists>auth hostname hosts.
                queryMediaConn env = Inr (auth, hostname # hosts) \<and>
                fetchPost env (uploadUrl env mediaType auth hostname (fileEncSha256 c)) body
                  = Inr (Some (url c))) \<and>
             mediaKey c = base64 (randomBytes32 env) \<and>
             fileLength c = length buffer) \<and>
         CHR ''+'' \<notin> set (fileEncSha256 c) \<and> CHR ''/'' \<notin> set (fileEncSha256 c) \<and>
         (fileEncSha256 c = [] \<or> last (fileEncSha256 c) \<noteq> CHR ''='') \<and>
         (length (sha256 env buffer) = 32 \<longrightarrow> last (fileSha256 c) = CHR ''='')"
proof -
  let ?ks = "getMediaKeys env (randomBytes32 env) mediaType"
  let ?body = "mediaBody env ?ks buffer"
  have body: "?body = aesEncrypWithIV env buffer (cipherKey ?ks) (iv ?ks)
      @ take 10 (hmacSign env (iv ?ks @ aesEncrypWithIV env buffer (cipherKey ?ks) (iv ?ks)) (macKey ?ks))"
    by (simp add: mediaBody_def mediaMac_def mediaEnc_def)
  have fields: "ty = mediaType \<and>
      fileSha256 c = base64 (sha256 env buffer) \<and>
      fileEncSha256 c = urlSafeBase64 (sha256 env ?body) \<and>
      (\<exists>auth hostname hosts.
         queryMediaConn env = Inr (auth, hostname # hosts) \<and>
         fetchPost env (uploadUrl env mediaType auth hostname (fileEncSha256 c)) ?body
           = Inr (Some (url c))) \<and>
      mediaKey c = base64 (randomBytes32 env) \<and>
      fileLength c = length buffer"
    using assms
    by (auto simp: prepareMediaMessage_def Let_def truthy_def propKey_def
             split: if_splits sum.splits prod.splits list.splits option.splits)
  have enc: "CHR ''+'' \<notin> set (fileEncSha256 c) \<and> CHR ''/'' \<notin> set (fileEncSha256 c) \<and>
         (fileEncSha256 c = [] \<or> last (fileEncSha256 c) \<noteq> CHR ''='')"
    using fields urlSafeBase64_alphabet [of "sha256 env ?body"] by simp
  have pad: "length (sha256 env buffer) = 32 \<longrightarrow> last (fileSha256 c) = CHR ''=''"
    using fields base64_padded [of "sha256 env buffer"] by simp
  show ?thesis
    using fields enc pad unfolding body urlSafeBase64_def Let_def by blast
qed

theorem prepareMediaMessage_content_witness:
  "prepareMediaMessage sampleMediaEnv [] mt_image sampleOptions =
     Inr (mt_image,
       \<lparr> url = ''https://mmg.whatsapp.net/d/f/abc.enc'',
         mediaKey = ''BwcHBwcHBwcHBwcHBwcHBwcHBwcHBwcHBwcHBwcHBwc='',
         mc_mimetype = Some ''image/jpeg'',
         fileEncSha256 = ''-_v7-_v7-_v7-_v7-_v7-_v7-_v7-_v7-_v7-_v7-_s'',
         fileSha256 = ''47DEQpj8HBSa+/TImW+5JCeuQeRkm5NMpJWZG3hSuFU='',
         fileLength = 0, gifPlayback = None \<rparr>) \<and>
   length (sha256 sampleMediaEnv []) = 32 \<and>
   last ''47DEQpj8HBSa+/TImW+5JCeuQeRkm5NMpJWZG3hSuFU='' = CHR ''=''"
proof -
  have r: "prepareMediaMessage sampleMediaEnv [] mt_image sampleOptions =
     Inr (mt_image,
       \<lparr> url = ''https://mmg.whatsapp.net/d/f/abc.enc'',
         mediaKey = ''BwcHBwcHBwcHBwcHBwcHBwcHBwcHBwcHBwcHBwcHBwc='',
         mc_mimetype = Some ''image/jpeg'',
         fileEncSha256 = ''-_v7-_v7-_v7-_v7-_v7-_v7-_v7-_v7-_v7-_v7-_s'',
         fileSha256 = ''47DEQpj8HBSa+/TImW+5JCeuQeRkm5NMpJWZG3hSuFU='',
         fileLength = 0, gifPlayback = None \<rparr>)"
    by code_simp
  have l: "length (sha256 sampleMediaEnv []) = 32"
    by (simp add: sampleMediaEnv_def)
  show ?thesis
    using prepareMediaMessage_content [OF r] r l by simp
qed

text \<open>
  The claim as stated fails for \<open>fileSha256\<close>, which is not made URL-safe: for the
  empty buffer, whose SHA-256 digest is \<open>e3b0c442...7852b855\<close>, the content carries the
  standard base64 of the digest, with a \<open>+\<close>, a \<open>/\<close> and the padding.
\<close>

theorem prepareMediaMessage_counterexample:
  "(case prepareMediaMessage sampleMediaEnv [] mt_image sampleOptions of
      Inl e \<Rightarrow> None
    | Inr (ty, c) \<Rightarrow> Some (fileSha256 c)) = Some ''47DEQpj8HBSa+/TImW+5JCeuQeRkm5NMpJWZG3hSuFU='' \<and>
   CHR ''+'' \<in> set ''47DEQpj8HBSa+/TImW+5JCeuQeRkm5NMpJWZG3hSuFU='' \<and>
   CHR ''/'' \<in> set ''47DEQpj8HBSa+/TImW+5JCeuQeRkm5NMpJWZG3hSuFU='' \<and>
   last ''47DEQpj8HBSa+/TImW+5JCeuQeRkm5NMpJWZG3hSuFU='' = CHR ''=''"
proof -
  have "(case prepareMediaMessage sampleMediaEnv [] mt_image sampleOptions of
      Inl e \<Rightarrow> None
    | Inr (ty, c) \<Rightarrow> Some (fileSha256 c)) = Some ''47DEQpj8HBSa+/TImW+5JCeuQeRkm5NMpJWZG3hSuFU=''"
    by code_simp
  then show ?thesis by simp
qed

text \<open>
  Claim C3. A retry receipt sent by \<open>sendRetryRequest\<close> has the children \<open>retry\<close>, with
  the pre-increment count, and \<open>registration\<close>. With count 1 it has no other child; with
  a count from 2 to 4 it has a third child \<open>keys\<close> holding, in this order, the first
  byte of the key-bundle-type marker, the public identity key, the one-time prekey just
  obtained, the signed prekey and the encoded device identity. At count 5 or above
  nothing is sent. For a stanza with a participant and a key store that yields a
  prekey, the receipt is sent whenever the count is below 5. This is the first part of
  the theorem, for a count that is a number. The second part is the same for a value
  read that is a string, which happens only for an id that names an inherited member
  of the map object: the comparisons are then those of the string with 5 and with 1,
  and the \<open>count\<close> attribute is the string.
\<close>

theorem sendRetryRequest_keys_bundle:
  "(\<forall>rc. counterOr (readProp m (propKey (attrs node ''id''))) 1 = CNum rc \<longrightarrow>
      1 \<le> rc \<and>
      (rc \<ge> 5 \<longrightarrow> fst (snd (sendRetryRequest wb ut creds io m node)) = []) \<and>
      (\<forall>receipt. SendNode receipt \<in> set (fst (snd (sendRetryRequest wb ut creds io m node))) \<longrightarrow>
         rc < 5 \<and>
         tag receipt = ''receipt'' \<and> attrs receipt ''type'' = Some ''retry'' \<and>
         (\<exists>update keyId ky retry registration.
            getNextPreKeys io = Inr (update, keyId, ky) \<and>
            tag retry = ''retry'' \<and>
            attrs retry ''count'' = Some (toStringNat rc) \<and>
            tag registration = ''registration'' \<and>
            content receipt = Nodes ([retry, registration] @
              (if rc = 1 then []
               else [BinaryNode ''keys'' Map.empty (Nodes
                       [BinaryNode ''type'' Map.empty
                          (Buffer (take 1 (generateSignalPubKey ut (KEY_BUNDLE_TYPE ut)))),
                        BinaryNode ''identity'' Map.empty (Buffer (kp_public (signedIdentityKey creds))),
                        xmppPreKey ut ky keyId,
                        xmppSignedPreKey ut (signedPreKey creds),
                        BinaryNode ''device-identity'' Map.empty
                          (Buffer (encodeADV ut (account creds)))])])))) \<and>
      (\<forall>update keyId ky.
         rc < 5 \<and> getNextPreKeys io = Inr (update, keyId, ky)
           \<and> truthy (attrs node ''participant'') \<longrightarrow>
         (\<exists>receipt. fst (snd (sendRetryRequest wb ut creds io m node)) =
             [SendNode receipt, Emit (CredsUpdateEv update)]))) \<and>
   (\<forall>s. counterOr (readProp m (propKey (attrs node ''id''))) 1 = CStr s \<longrightarrow>
      (strGreaterEq ut s 5 \<longrightarrow> fst (snd (sendRetryRequest wb ut creds io m node)) = []) \<and>
      (\<forall>receipt. SendNode receipt \<in> set (fst (snd (sendRetryRequest wb ut creds io m node))) \<longrightarrow>
         \<not> strGreaterEq ut s 5 \<and>
         tag receipt = ''receipt'' \<and> attrs receipt ''type'' = Some ''retry'' \<and>
         (\<exists>update keyId ky retry registration.
            getNextPreKeys io = Inr (update, keyId, ky) \<and>
            tag retry = ''retry'' \<and>
            attrs retry ''count'' = Some s \<and>
            tag registration = ''registration'' \<and>
            content receipt = Nodes ([retry, registration] @
              (if \<not> strGreater ut s 1 then []
               else [BinaryNode ''keys'' Map.empty (Nodes
                       [BinaryNode ''type'' Map.empty
                          (Buffer (take 1 (generateSignalPubKey ut (KEY_BUNDLE_TYPE ut)))),
                        BinaryNode ''identity'' Map.empty (Buffer (kp_public (signedIdentityKey creds))),
                        xmppPreKey ut ky keyId,
                        xmppSignedPreKey ut (signedPreKey creds),
                        BinaryNode ''device-identity'' Map.empty
                          (Buffer (encodeADV ut (account creds)))])])))) \<and>
      (\<forall>update keyId ky.
         \<not> strGreaterEq ut s 5 \<and> getNextPreKeys io = Inr (update, keyId, ky)
           \<and> truthy (attrs node ''participant'') \<longrightarrow>
         (\<exists>receipt. fst (snd (sendRetryRequest wb ut creds io m node)) =
             [SendNode receipt, Emit (CredsUpdateEv update)])))"
proof -
  let ?v = "counterOr (readProp m (propKey (attrs node ''id''))) 1"
  let ?es = "fst (snd (sendRetryRequest wb ut creds io m node))"
  let ?keys = "\<lambda>keyId ky. BinaryNode ''keys'' Map.empty (Nodes
                       [BinaryNode ''type'' Map.empty
                          (Buffer (take 1 (generateSignalPubKey ut (KEY_BUNDLE_TYPE ut)))),
                        BinaryNode ''identity'' Map.empty (Buffer (kp_public (signedIdentityKey creds))),
                        xmppPreKey ut ky keyId,
                        xmppSignedPreKey ut (signedPreKey creds),
                        BinaryNode ''device-identity'' Map.empty
                          (Buffer (encodeADV ut (account creds)))])"
  have cap: "counterGe ut ?v 5 \<Longrightarrow> ?es = []"
    by (rule sendRetryRequest_capped)
  have sent: "SendNode receipt \<in> set ?es \<Longrightarrow>
      \<not> counterGe ut ?v 5 \<and>
      tag receipt = ''receipt'' \<and> attrs receipt ''type'' = Some ''retry'' \<and>
      (\<exists>update keyId ky retry registration.
         getNextPreKeys io = Inr (update, keyId, ky) \<and>
         tag retry = ''retry'' \<and> attrs retry ''count'' = Some (counterText ?v) \<and>
         tag registration = ''registration'' \<and>
         content receipt = Nodes ([retry, registration] @
           (if \<not> counterGt ut ?v 1 then [] else [?keys keyId ky])))" for receipt
  proof -
    assume "SendNode receipt \<in> set ?es"
    then obtain update keyId ky where
      lt: "\<not> counterGe ut ?v 5" and g: "getNextPreKeys io = Inr (update, keyId, ky)"
      and rr: "retryReceipt wb ut creds node ?v keyId ky = Inr receipt"
      using sendRetryRequest_sent by blast
    obtain retry registration where
      t: "tag receipt = ''receipt''" "attrs receipt ''type'' = Some ''retry''"
         "tag retry = ''retry''" "attrs retry ''count'' = Some (counterText ?v)"
         "tag registration = ''registration''"
      and c: "content receipt = Nodes ([retry, registration] @
           (if counterGt ut ?v 1 then [keysBundle ut creds keyId ky] else []))"
      using retryReceipt_shape [OF rr] by blast
    have "content receipt = Nodes ([retry, registration] @
           (if \<not> counterGt ut ?v 1 then [] else [?keys keyId ky]))"
      unfolding c by (simp add: keysBundle_def)
    then show ?thesis
      using lt g t by blast
  qed
  have group: "\<not> counterGe ut ?v 5 \<Longrightarrow> getNextPreKeys io = Inr (update, keyId, ky) \<Longrightarrow>
      truthy (attrs node ''participant'') \<Longrightarrow>
      \<exists>receipt. ?es = [SendNode receipt, Emit (CredsUpdateEv update)]" for update keyId ky
    by (rule sendRetryRequest_group)
  have num: "?v = CNum rc \<Longrightarrow>
      1 \<le> rc \<and>
      (rc \<ge> 5 \<longrightarrow> ?es = []) \<and>
      (\<forall>receipt. SendNode receipt \<in> set ?es \<longrightarrow>
         rc < 5 \<and>
         tag receipt = ''receipt'' \<and> attrs receipt ''type'' = Some ''retry'' \<and>
         (\<exists>update keyId ky retry registration.
            getNextPreKeys io = Inr (update, keyId, ky) \<and>
            tag retry = ''retry'' \<and>
            attrs retry ''count'' = Some (toStringNat rc) \<and>
            tag registration = ''registration'' \<and>
            content receipt = Nodes ([retry, registration] @
              (if rc = 1 then [] else [?keys keyId ky])))) \<and>
      (\<forall>update keyId ky.
         rc < 5 \<and> getNextPreKeys io = Inr (update, keyId, ky)
           \<and> truthy (attrs node ''participant'') \<longrightarrow>
         (\<exists>receipt. ?es = [SendNode receipt, Emit (CredsUpdateEv update)]))" for rc
  proof -
    assume v: "?v = CNum rc"
    have ge1: "1 \<le> rc"
      using counterOr_one_ge [OF v] .
    have c: "counterGe ut ?v 5 = (rc \<ge> 5)" "(\<not> counterGt ut ?v 1) = (rc = 1)"
            "counterText ?v = toStringNat rc"
      unfolding v using ge1 by (auto simp: counterGe_def counterGt_def counterText_def)
    show ?thesis
      using ge1 cap sent group unfolding c by (simp add: not_le)
  qed
  have str: "?v = CStr s \<Longrightarrow>
      (strGreaterEq ut s 5 \<longrightarrow> ?es = []) \<and>
      (\<forall>receipt. SendNode receipt \<in> set ?es \<longrightarrow>
         \<not> strGreaterEq ut s 5 \<and>
         tag receipt = ''receipt'' \<and> attrs receipt ''type'' = Some ''retry'' \<and>
         (\<exists>update keyId ky retry registration.
            getNextPreKeys io = Inr (update, keyId, ky) \<and>
            tag retry = ''retry'' \<and>
            attrs retry ''count'' = Some s \<and>
            tag registration = ''registration'' \<and>
            content receipt = Nodes ([retry, registration] @
              (if \<not> strGreater ut s 1 then [] else [?keys keyId ky])))) \<and>
      (\<forall>update keyId ky.
         \<not> strGreaterEq ut s 5 \<and> getNextPreKeys io = Inr (update, keyId, ky)
           \<and> truthy (attrs node ''participant'') \<longrightarrow>
         (\<exists>receipt. ?es = [SendNode receipt, Emit (CredsUpdateEv update)]))" for s
  proof -
    assume v: "?v = CStr s"
    have c: "counterGe ut ?v 5 = strGreaterEq ut s 5" "counterGt ut ?v 1 = strGreater ut s 1"
            "counterText ?v = s"
      unfolding v by (auto simp: counterGe_def counterGt_def counterText_def)
    show ?thesis
      using cap sent group unfolding c by simp
  qed
  show ?thesis
    using num str by blast
qed

theorem sendRetryRequest_keys_bundle_witness:
  "map childTags (sentNodes (fst (snd (sendRetryRequest sampleWABinary sampleUtils sampleCreds sampleIO
      Map.empty sampleGroupMessage)))) = [[''retry'', ''registration'']] \<and>
   map childTags (sentNodes (fst (snd (sendRetryRequest sampleWABinary sampleUtils sampleCreds sampleIO
      (Map.empty(''A1'' \<mapsto> CNum 2)) sampleGroupMessage)))) = [[''retry'', ''registration'', ''keys'']] \<and>
   sentNodes (fst (snd (sendRetryRequest sampleWABinary sampleUtils sampleCreds sampleIO
      (Map.empty(''A1'' \<mapsto> CNum 5)) sampleGroupMessage))) = []"
proof -
  let ?send = "\<lambda>m. fst (snd (sendRetryRequest sampleWABinary sampleUtils sampleCreds sampleIO m
                  sampleGroupMessage))"
  have a: "propKey (attrs sampleGroupMessage ''id'') = ''A1''"
          "truthy (attrs sampleGroupMessage ''participant'')"
    by (simp_all add: sampleGroupMessage_def propKey_def truthy_def)
  have g: "getNextPreKeys sampleIO =
      Inr (''nextPreKeyId'', 7, \<lparr> kp_public = [10, 11], kp_private = [12, 13] \<rparr>)"
    by (simp add: sampleIO_def)
  have run: "map childTags (sentNodes (?send m)) =
      [[''retry'', ''registration''] @ (if rc = 1 then [] else [''keys''])]"
    if v: "counterOr (readProp m ''A1'') 1 = CNum rc" and lt: "rc < 5" for m rc
  proof -
    note t = sendRetryRequest_keys_bundle [where wb = sampleWABinary and ut = sampleUtils
        and creds = sampleCreds and io = sampleIO and m = m and node = sampleGroupMessage,
        unfolded a(1), THEN conjunct1, rule_format, OF v]
    obtain receipt where es: "?send m = [SendNode receipt, Emit (CredsUpdateEv ''nextPreKeyId'')]"
      using t lt g a(2) by blast
    then have "SendNode receipt \<in> set (?send m)"
      by simp
    then obtain retry registration rest where
      c: "tag retry = ''retry''" "tag registration = ''registration''"
         "content receipt = Nodes ([retry, registration] @
            (if rc = 1 then [] else [BinaryNode ''keys'' Map.empty rest]))"
      using t by blast
    show ?thesis
      unfolding es using c by (simp add: childTags_def)
  qed
  have v1: "counterOr (readProp Map.empty ''A1'') 1 = CNum 1"
    by (simp add: readProp_def counterOr_def objectPrototypeNames_def)
  have v2: "counterOr (readProp (Map.empty(''A1'' \<mapsto> CNum 2)) ''A1'') 1 = CNum 2"
    by (simp add: readProp_def counterOr_def)
  have v5: "counterOr (readProp (Map.empty(''A1'' \<mapsto> CNum 5)) ''A1'') 1 = CNum 5"
    by (simp add: readProp_def counterOr_def)
  have r1: "map childTags (sentNodes (?send Map.empty)) = [[''retry'', ''registration'']]"
    using run [OF v1] by simp
  have r2: "map childTags (sentNodes (?send (Map.empty(''A1'' \<mapsto> CNum 2)))) =
      [[''retry'', ''registration'', ''keys'']]"
    using run [OF v2] by simp
  have "?send (Map.empty(''A1'' \<mapsto> CNum 5)) = []"
    using sendRetryRequest_keys_bundle [where wb = sampleWABinary and ut = sampleUtils
        and creds = sampleCreds and io = sampleIO and m = "Map.empty(''A1'' \<mapsto> CNum 5)"
        and node = sampleGroupMessage, unfolded a(1), THEN conjunct1, rule_format, OF v5]
    by simp
  then show ?thesis
    using r1 r2 by simp
qed

text \<open>
  Claim C4. For every receipt stanza, the key \<open>handleReceipt\<close> builds has
  \<open>remoteJid = attrs.from\<close> when the stanza is not from the local user or \<open>attrs.from\<close>
  is a group JID, and \<open>attrs.recipient\<close> otherwise; its \<open>fromMe\<close> holds exactly when
  \<open>attrs.recipient\<close> is absent or the type is \<open>retry\<close> and the stanza is from the local
  user. The stanza is from the local user when \<open>attrs.participant\<close>, or \<open>attrs.from\<close>
  when there is no participant, names the same user as the local identity. Every key
  carried by a status update or a store lookup of the handler has this \<open>remoteJid\<close>
  and this \<open>fromMe\<close>. An attribute counts as absent when the source's test finds it
  falsy: not set, or the empty string.
\<close>

theorem handleReceipt_key:
  "isNodeFromMe wb creds (attrs node) =
     areJidsSameUser wb
       (if truthy (attrs node ''participant'') then attrs node ''participant'' else attrs node ''from'')
       (me creds) \<and>
   remoteJid (receiptKey wb creds node) =
     (if \<not> isNodeFromMe wb creds (attrs node) \<or> isJidGroup wb (attrs node ''from'')
      then attrs node ''from'' else attrs node ''recipient'') \<and>
   fromMe (receiptKey wb creds node) =
     (\<not> truthy (attrs node ''recipient'')
      \<or> (attrs node ''type'' = Some ''retry'' \<and> isNodeFromMe wb creds (attrs node))) \<and>
   (\<forall>e\<in>set (snd (handleReceipt wb ut creds io m node)). \<forall>k\<in>set (effectKeys e).
      remoteJid k = remoteJid (receiptKey wb creds node) \<and>
      fromMe k = fromMe (receiptKey wb creds node))"
proof -
  let ?P = "\<lambda>es. \<forall>e\<in>set es. \<forall>k\<in>set (effectKeys e).
      remoteJid k = remoteJid (receiptKey wb creds node) \<and>
      fromMe k = fromMe (receiptKey wb creds node)"
  have "?P (snd (handleReceipt wb ut creds io m node))"
  proof (cases "receiptIds wb node")
    case (Inl e)
    then show ?thesis by (simp add: handleReceipt_def)
  next
    case (Inr ids)
    show ?thesis
    proof (cases "receiptUpdates wb ut creds node ids")
      case (Inl e)
      then show ?thesis using Inr by (simp add: handleReceipt_def)
    next
      case ups: (Inr ups)
      obtain m' es ack where r: "receiptResend wb ut creds io m node ids = (m', es, ack)"
        by (metis prod_cases3)
      have "snd (handleReceipt wb ut creds io m node) =
          ups @ es @ (if ack then [SendNode (ackStanza node Map.empty)] else [])"
        using Inr ups r by (simp add: handleReceipt_def sendMessageAck_def)
      then show ?thesis
        using receiptUpdates_keys [OF ups] receiptResend_keys [OF r] by auto
    qed
  qed
  then show ?thesis
    by (simp add: isNodeFromMe_def js_or_def receiptKey_def Let_def)
qed

theorem handleReceipt_key_witness:
  "remoteJid (receiptKey sampleWABinary sampleCreds sampleReadReceipt) = Some ''123-456@g.us'' \<and>
   fromMe (receiptKey sampleWABinary sampleCreds sampleReadReceipt) = True \<and>
   concat (map effectKeys (snd (handleReceipt sampleWABinary sampleUtils sampleCreds sampleIO
      Map.empty sampleReadReceipt))) =
     [\<lparr> remoteJid = Some ''123-456@g.us'', key_id = Some ''A1'', fromMe = True,
         participant = Some ''bob@s.whatsapp.net'' \<rparr>,
      \<lparr> remoteJid = Some ''123-456@g.us'', key_id = Some ''A2'', fromMe = True,
         participant = Some ''bob@s.whatsapp.net'' \<rparr>]"
proof -
  have a: "isNodeFromMe sampleWABinary sampleCreds (attrs sampleReadReceipt) = False"
    by code_simp
  have b: "attrs sampleReadReceipt ''from'' = Some ''123-456@g.us''"
          "attrs sampleReadReceipt ''recipient'' = None"
    by (simp_all add: sampleReadReceipt_def)
  have c: "concat (map effectKeys (snd (handleReceipt sampleWABinary sampleUtils sampleCreds sampleIO
      Map.empty sampleReadReceipt))) =
     [\<lparr> remoteJid = Some ''123-456@g.us'', key_id = Some ''A1'', fromMe = True,
         participant = Some ''bob@s.whatsapp.net'' \<rparr>,
      \<lparr> remoteJid = Some ''123-456@g.us'', key_id = Some ''A2'', fromMe = True,
         participant = Some ''bob@s.whatsapp.net'' \<rparr>]"
    by code_simp
  show ?thesis
    using handleReceipt_key [of sampleWABinary sampleCreds sampleReadReceipt sampleUtils sampleIO Map.empty]
          a b c
    by (simp add: truthy_def)
qed

text \<open>
  Claim C5, amended. For every receipt stanza whose type maps to a status: when the
  content is an empty array, collecting the ids throws, and when the update is due for
  a group \<open>remoteJid\<close> and \<open>jidNormalizedUser\<close> throws on \<open>attrs.participant\<close>, building
  the update throws; in both cases \<open>handleReceipt\<close> emits nothing. In every other case
  the events \<open>handleReceipt\<close> emits are status updates exactly when the status is above
  \<open>DELIVERY_ACK\<close> or the stanza is not from the local user. For a group \<open>remoteJid\<close> it
  is one \<open>message-receipt.update\<close> with an entry per id, carrying \<open>receiptTimestamp\<close>
  when the status is \<open>DELIVERY_ACK\<close> and \<open>readTimestamp\<close> otherwise; for any other
  \<open>remoteJid\<close> it is one \<open>messages.update\<close> with an entry per id carrying the status.
\<close>

theorem handleReceipt_updates:
  assumes "getStatusFromReceiptType ut (attrs node ''type'') = Some status"
  shows "((\<exists>e. receiptIds wb node = Inl e) = (content node = Nodes [])) \<and>
   filter isEmit (snd (handleReceipt wb ut creds io m node)) =
     (case receiptIds wb node of
        Inl e \<Rightarrow> []
      | Inr ids \<Rightarrow>
          if statusNum status > statusNum DELIVERY_ACK \<or> \<not> isNodeFromMe wb creds (attrs node)
          then
            (if isJidGroup wb (remoteJid (receiptKey wb creds node))
             then (case jidNormalizedUser wb (attrs node ''participant'') of
                     Inl e \<Rightarrow> []
                   | Inr u \<Rightarrow>
                       [Emit (MessageReceiptUpdate
                          (map (\<lambda>i. ((receiptKey wb creds node)\<lparr>key_id := i\<rparr>,
                                      \<lparr> userJid = u,
                                        receiptTimestamp =
                                          (if status = DELIVERY_ACK
                                           then Some (ToNumber (attrs node ''t'')) else None),
                                        readTimestamp =
                                          (if status = DELIVERY_ACK
                                           then None else Some (ToNumber (attrs node ''t''))) \<rparr>))
                               ids))])
             else [Emit (MessagesUpdate
                     (map (\<lambda>i. ((receiptKey wb creds node)\<lparr>key_id := i\<rparr>, status)) ids))])
          else [])"
proof -
  have thrown: "(\<exists>e. receiptIds wb node = Inl e) = (content node = Nodes [])"
    by (auto simp: receiptIds_def split: NodeContent.splits list.splits)
  have emitted: "filter isEmit (snd (handleReceipt wb ut creds io m node)) =
      (case receiptIds wb node of
         Inl e \<Rightarrow> []
       | Inr ids \<Rightarrow> (case receiptUpdates wb ut creds node ids of Inl e \<Rightarrow> [] | Inr ups \<Rightarrow> ups))"
  proof (cases "receiptIds wb node")
    case (Inl e)
    then show ?thesis by (simp add: handleReceipt_def)
  next
    case (Inr ids)
    show ?thesis
    proof (cases "receiptUpdates wb ut creds node ids")
      case (Inl e)
      then show ?thesis using Inr by (simp add: handleReceipt_def)
    next
      case ups: (Inr ups)
      obtain m' es ack where r: "receiptResend wb ut creds io m node ids = (m', es, ack)"
        by (metis prod_cases3)
      have calls: "filter isEmit es = []"
        using receiptResend_calls [OF r] isCall_not_emit by (intro filter_none) blast
      have all: "filter isEmit ups = ups"
        using receiptUpdates_emits [OF ups] by (rule filter_all)
      show ?thesis
        using Inr ups r calls all by (simp add: handleReceipt_def sendMessageAck_def)
    qed
  qed
  show ?thesis
    unfolding emitted using assms thrown
    by (simp add: receiptUpdates_def Let_def split: sum.splits)
qed

theorem handleReceipt_updates_witness:
  "getStatusFromReceiptType sampleUtils (attrs sampleReadReceipt ''type'') = Some READ \<and>
   filter isEmit (snd (handleReceipt sampleWABinary sampleUtils sampleCreds sampleIO
      Map.empty sampleReadReceipt)) =
     [Emit (MessageReceiptUpdate
        [(\<lparr> remoteJid = Some ''123-456@g.us'', key_id = Some ''A1'', fromMe = True,
            participant = Some ''bob@s.whatsapp.net'' \<rparr>,
          \<lparr> userJid = ''bob@s.whatsapp.net'', receiptTimestamp = None,
            readTimestamp = Some (ToNumber (Some ''1000'')) \<rparr>),
         (\<lparr> remoteJid = Some ''123-456@g.us'', key_id = Some ''A2'', fromMe = True,
            participant = Some ''bob@s.whatsapp.net'' \<rparr>,
          \<lparr> userJid = ''bob@s.whatsapp.net'', receiptTimestamp = None,
            readTimestamp = Some (ToNumber (Some ''1000'')) \<rparr>)])]"
proof -
  have h: "getStatusFromReceiptType sampleUtils (attrs sampleReadReceipt ''type'') = Some READ"
    by code_simp
  have a: "isNodeFromMe sampleWABinary sampleCreds (attrs sampleReadReceipt) = False"
    by code_simp
  have b: "isJidGroup sampleWABinary (Some ''123-456@g.us'')"
    by code_simp
  have c: "receiptKey sampleWABinary sampleCreds sampleReadReceipt =
      \<lparr> remoteJid = Some ''123-456@g.us'', key_id = Some [], fromMe = True,
         participant = Some ''bob@s.whatsapp.net'' \<rparr>"
    by code_simp
  have d: "receiptIds sampleWABinary sampleReadReceipt = Inr [Some ''A1'', Some ''A2'']"
    by code_simp
  have e: "jidNormalizedUser sampleWABinary (attrs sampleReadReceipt ''participant'')
             = Inr ''bob@s.whatsapp.net''"
          "attrs sampleReadReceipt ''t'' = Some ''1000''"
    by code_simp+
  show ?thesis
    using h handleReceipt_updates [OF h, of sampleWABinary sampleCreds sampleIO Map.empty]
    by (simp add: a b c d e)
qed

text \<open>
  The claim as stated fails for a receipt on which the handler throws before it
  emits. A read receipt of a one-to-one chat whose content is an empty array: the
  status \<open>READ\<close> is above \<open>DELIVERY_ACK\<close>, yet \<open>getBinaryNodeChildren(content[0], 'item')\<close>
  throws and nothing is emitted. A read receipt of a group that has no participant:
  \<open>jidNormalizedUser(undefined)\<close> throws while the entries of the update are built,
  and nothing is emitted. Both errors end in \<open>onUnexpectedError\<close>.
\<close>

theorem handleReceipt_updates_counterexample:
  "getStatusFromReceiptType sampleUtils (attrs sampleEmptyListReceipt ''type'') = Some READ \<and>
   statusNum DELIVERY_ACK < statusNum READ \<and>
   snd (handleReceipt sampleWABinary sampleUtils sampleCreds sampleIO Map.empty sampleEmptyListReceipt)
     = [Call (OnUnexpectedError TypeError ''handling receipt'')] \<and>
   getStatusFromReceiptType sampleUtils (attrs sampleAnonymousGroupReceipt ''type'') = Some READ \<and>
   isJidGroup sampleWABinary (remoteJid (receiptKey sampleWABinary sampleCreds sampleAnonymousGroupReceipt)) \<and>
   snd (handleReceipt sampleWABinary sampleUtils sampleCreds sampleIO Map.empty sampleAnonymousGroupReceipt)
     = [Call (OnUnexpectedError TypeError ''handling receipt'')]"
proof -
  have h1: "getStatusFromReceiptType sampleUtils (attrs sampleEmptyListReceipt ''type'') = Some READ"
    by code_simp
  have i1: "receiptIds sampleWABinary sampleEmptyListReceipt = Inl TypeError"
    by (simp add: receiptIds_def sampleEmptyListReceipt_def)
  have r1: "snd (handleReceipt sampleWABinary sampleUtils sampleCreds sampleIO Map.empty
      sampleEmptyListReceipt) = [Call (OnUnexpectedError TypeError ''handling receipt'')]"
    by (simp add: handleReceipt_def i1)
  have h2: "getStatusFromReceiptType sampleUtils (attrs sampleAnonymousGroupReceipt ''type'') = Some READ"
    by code_simp
  have g2: "isJidGroup sampleWABinary
      (remoteJid (receiptKey sampleWABinary sampleCreds sampleAnonymousGroupReceipt))"
    by code_simp
  have i2: "receiptIds sampleWABinary sampleAnonymousGroupReceipt = Inr [Some ''A1'']"
    by (simp add: receiptIds_def sampleAnonymousGroupReceipt_def)
  have n2: "jidNormalizedUser sampleWABinary (attrs sampleAnonymousGroupReceipt ''participant'')
              = Inl TypeError"
    by code_simp
  have u2: "receiptUpdates sampleWABinary sampleUtils sampleCreds sampleAnonymousGroupReceipt
      [Some ''A1''] = Inl TypeError"
    by (simp add: receiptUpdates_def Let_def h2 g2 n2)
  have r2: "snd (handleReceipt sampleWABinary sampleUtils sampleCreds sampleIO Map.empty
      sampleAnonymousGroupReceipt) = [Call (OnUnexpectedError TypeError ''handling receipt'')]"
    by (simp add: handleReceipt_def i2 u2)
  show ?thesis
    using h1 r1 h2 g2 r2 by simp
qed

text \<open>
  Claim C6, amended. For every receipt stanza \<open>handleReceipt\<close> sends exactly one ack,
  except in three cases, in which it sends none: the content is an empty array, so
  that collecting the ids throws; a status update is due for a group \<open>remoteJid\<close> and
  \<open>jidNormalizedUser\<close> throws on \<open>attrs.participant\<close>; or the type is \<open>retry\<close>, the key
  is \<open>fromMe\<close>, the resend is started (\<open>willSendMessageAgain\<close> holds for the first id)
  and \<open>sendMessagesAgain\<close> throws.
\<close>

theorem handleReceipt_ack_count:
  "length (filter isAck (snd (handleReceipt wb ut creds io m node))) =
     (if content node = Nodes [] then 0
      else if (\<exists>status e.
                 getStatusFromReceiptType ut (attrs node ''type'') = Some status
                 \<and> (statusNum status > statusNum DELIVERY_ACK \<or> \<not> isNodeFromMe wb creds (attrs node))
                 \<and> isJidGroup wb (remoteJid (receiptKey wb creds node))
                 \<and> jidNormalizedUser wb (attrs node ''participant'') = Inl e)
      then 0
      else if attrs node ''type'' = Some ''retry'' \<and> fromMe (receiptKey wb creds node)
         \<and> willSendMessageAgain ut m (attrs node ''id'')
         \<and> (\<exists>e ids. receiptIds wb node = Inr ids
               \<and> snd (snd (sendMessagesAgain wb io m
                    ((receiptKey wb creds node)
                       \<lparr>participant := js_or (attrs node ''participant'') (attrs node ''from'')\<rparr>)
                    ids)) = Some e)
      then 0 else 1)"
proof (cases "receiptIds wb node")
  case (Inl e)
  then have "content node = Nodes []"
    by (auto simp: receiptIds_def split: NodeContent.splits list.splits)
  then show ?thesis
    using Inl by (simp add: handleReceipt_def)
next
  case (Inr ids)
  then have c: "content node \<noteq> Nodes []"
    by (auto simp: receiptIds_def)
  let ?throws = "\<exists>status e.
                 getStatusFromReceiptType ut (attrs node ''type'') = Some status
                 \<and> (statusNum status > statusNum DELIVERY_ACK \<or> \<not> isNodeFromMe wb creds (attrs node))
                 \<and> isJidGroup wb (remoteJid (receiptKey wb creds node))
                 \<and> jidNormalizedUser wb (attrs node ''participant'') = Inl e"
  have t: "(\<exists>e. receiptUpdates wb ut creds node ids = Inl e) = ?throws"
    by (auto simp: receiptUpdates_def Let_def split: option.splits sum.splits if_splits)
  show ?thesis
  proof (cases "receiptUpdates wb ut creds node ids")
    case (Inl e)
    then have ?throws using t by blast
    then show ?thesis
      using Inr Inl c by (simp add: handleReceipt_def)
  next
    case ups: (Inr ups)
    then have nt: "\<not> ?throws" using t by simp
    obtain m' es ack where r: "receiptResend wb ut creds io m node ids = (m', es, ack)"
      by (metis prod_cases3)
    have calls: "filter isAck es = []"
      using receiptResend_calls [OF r] isCall_not_ack by (intro filter_none) blast
    have nups: "filter isAck ups = []"
      using receiptUpdates_emits [OF ups] isEmit_not_ack by (intro filter_none) blast
    have hd: "(case ids of [] \<Rightarrow> None | i # _ \<Rightarrow> i) = attrs node ''id''"
      using receiptIds_head [OF Inr] .
    have p: "participant (receiptKey wb creds node) = attrs node ''participant''"
      by (simp add: receiptKey_def Let_def)
    have n: "length (filter isAck (snd (handleReceipt wb ut creds io m node))) = (if ack then 1 else 0)"
      using Inr ups r calls nups by (simp add: handleReceipt_def sendMessageAck_def)
    have a: "ack = (\<not> (attrs node ''type'' = Some ''retry'' \<and> fromMe (receiptKey wb creds node)
         \<and> willSendMessageAgain ut m (attrs node ''id'')
         \<and> (\<exists>e. snd (snd (sendMessagesAgain wb io m
                    ((receiptKey wb creds node)
                       \<lparr>participant := js_or (attrs node ''participant'') (attrs node ''from'')\<rparr>)
                    ids)) = Some e)))"
      using r
      by (auto simp: receiptResend_def Let_def hd p split: if_splits prod.splits option.splits)
    show ?thesis
      unfolding n a using c nt Inr by simp
  qed
qed

theorem handleReceipt_ack_count_witness:
  "length (filter isAck (snd (handleReceipt sampleWABinary sampleUtils sampleCreds rejectingIO
      Map.empty sampleRetryReceipt))) = 0 \<and>
   length (filter isAck (snd (handleReceipt sampleWABinary sampleUtils sampleCreds sampleIO
      Map.empty sampleRetryReceipt))) = 1"
proof -
  let ?k = "(receiptKey sampleWABinary sampleCreds sampleRetryReceipt)
              \<lparr>participant := js_or (attrs sampleRetryReceipt ''participant'')
                                    (attrs sampleRetryReceipt ''from'')\<rparr>"
  have a: "attrs sampleRetryReceipt ''type'' = Some ''retry''"
          "content sampleRetryReceipt \<noteq> Nodes []"
    by (simp_all add: sampleRetryReceipt_def)
  have s: "getStatusFromReceiptType sampleUtils (Some ''retry'') = None"
    by code_simp
  have b: "fromMe (receiptKey sampleWABinary sampleCreds sampleRetryReceipt)"
    by code_simp
  have c: "willSendMessageAgain sampleUtils Map.empty (attrs sampleRetryReceipt ''id'')"
    by code_simp
  have i: "receiptIds sampleWABinary sampleRetryReceipt = Inr [Some ''X'']"
    by (simp add: receiptIds_def sampleRetryReceipt_def)
  have d: "snd (snd (sendMessagesAgain sampleWABinary rejectingIO Map.empty ?k [Some ''X'']))
             = Some (Rejected ''connection closed'')"
    by code_simp
  have e: "snd (snd (sendMessagesAgain sampleWABinary sampleIO Map.empty ?k [Some ''X''])) = None"
    by code_simp
  show ?thesis
    using handleReceipt_ack_count [of sampleWABinary sampleUtils sampleCreds rejectingIO Map.empty sampleRetryReceipt]
          handleReceipt_ack_count [of sampleWABinary sampleUtils sampleCreds sampleIO Map.empty sampleRetryReceipt]
          a s b c i d e
    by simp
qed

text \<open>
  The claim as stated fails for a receipt on which the handler throws before the ack.
  A read receipt whose content is an empty array, and a read receipt of a group
  without a participant: neither has the type \<open>retry\<close>, no resend is started, and no
  ack is sent.
\<close>

theorem handleReceipt_ack_counterexample:
  "attrs sampleEmptyListReceipt ''type'' = Some ''read'' \<and>
   length (filter isAck (snd (handleReceipt sampleWABinary sampleUtils sampleCreds sampleIO
      Map.empty sampleEmptyListReceipt))) = 0 \<and>
   filter isCall (snd (handleReceipt sampleWABinary sampleUtils sampleCreds sampleIO
      Map.empty sampleEmptyListReceipt)) = [Call (OnUnexpectedError TypeError ''handling receipt'')] \<and>
   attrs sampleAnonymousGroupReceipt ''type'' = Some ''read'' \<and>
   length (filter isAck (snd (handleReceipt sampleWABinary sampleUtils sampleCreds sampleIO
      Map.empty sampleAnonymousGroupReceipt))) = 0 \<and>
   filter isCall (snd (handleReceipt sampleWABinary sampleUtils sampleCreds sampleIO
      Map.empty sampleAnonymousGroupReceipt)) = [Call (OnUnexpectedError TypeError ''handling receipt'')]"
proof -
  have t: "attrs sampleEmptyListReceipt ''type'' = Some ''read''"
          "attrs sampleAnonymousGroupReceipt ''type'' = Some ''read''"
    by (simp_all add: sampleEmptyListReceipt_def sampleAnonymousGroupReceipt_def)
  have i1: "receiptIds sampleWABinary sampleEmptyListReceipt = Inl TypeError"
    by (simp add: receiptIds_def sampleEmptyListReceipt_def)
  have r1: "snd (handleReceipt sampleWABinary sampleUtils sampleCreds sampleIO Map.empty
      sampleEmptyListReceipt) = [Call (OnUnexpectedError TypeError ''handling receipt'')]"
    by (simp add: handleReceipt_def i1)
  have h2: "getStatusFromReceiptType sampleUtils (attrs sampleAnonymousGroupReceipt ''type'') = Some READ"
    by code_simp
  have g2: "isJidGroup sampleWABinary
      (remoteJid (receiptKey sampleWABinary sampleCreds sampleAnonymousGroupReceipt))"
    by code_simp
  have i2: "receiptIds sampleWABinary sampleAnonymousGroupReceipt = Inr [Some ''A1'']"
    by (simp add: receiptIds_def sampleAnonymousGroupReceipt_def)
  have n2: "jidNormalizedUser sampleWABinary (attrs sampleAnonymousGroupReceipt ''participant'')
              = Inl TypeError"
    by code_simp
  have u2: "receiptUpdates sampleWABinary sampleUtils sampleCreds sampleAnonymousGroupReceipt
      [Some ''A1''] = Inl TypeError"
    by (simp add: receiptUpdates_def Let_def h2 g2 n2)
  have r2: "snd (handleReceipt sampleWABinary sampleUtils sampleCreds sampleIO Map.empty
      sampleAnonymousGroupReceipt) = [Call (OnUnexpectedError TypeError ''handling receipt'')]"
    by (simp add: handleReceipt_def i2 u2)
  show ?thesis
    unfolding r1 r2 using t by simp
qed

text \<open>
  Claim C7, amended. \<open>sendMessageAck\<close> emits one \<open>ack\<close> stanza with \<open>id = attrs.id\<close>,
  \<open>to = attrs.from\<close> and \<open>class\<close> the stanza tag, except that a key set in the extra
  attributes, which are spread last, replaces the base value. The participant of the
  input is copied onto the ack exactly when the input has one (a non-empty one);
  otherwise the ack has the participant of the extra attributes, if any. The input's
  type is copied exactly when the tag is not \<open>message\<close>, the input has a type and the
  extra attributes carry no type; otherwise the ack has the type of the extra
  attributes, if any.
\<close>

theorem sendMessageAck_stanza:
  "sendMessageAck node extra = [SendNode (ackStanza node extra)] \<and>
   tag (ackStanza node extra) = ''ack'' \<and>
   attrs (ackStanza node extra) ''id'' =
     (case extra ''id'' of None \<Rightarrow> attrs node ''id'' | Some v \<Rightarrow> Some v) \<and>
   attrs (ackStanza node extra) ''to'' =
     (case extra ''to'' of None \<Rightarrow> attrs node ''from'' | Some v \<Rightarrow> Some v) \<and>
   attrs (ackStanza node extra) ''class'' =
     (case extra ''class'' of None \<Rightarrow> Some (tag node) | Some v \<Rightarrow> Some v) \<and>
   attrs (ackStanza node extra) ''participant'' =
     (if truthy (attrs node ''participant'') then attrs node ''participant''
      else extra ''participant'') \<and>
   attrs (ackStanza node extra) ''type'' =
     (if tag node \<noteq> ''message'' \<and> truthy (attrs node ''type'') \<and> \<not> truthy (extra ''type'')
      then attrs node ''type'' else extra ''type'')"
  by (simp add: sendMessageAck_def ackStanza_def ackBaseAttrs_def Let_def map_add_def
           split: option.splits)

theorem sendMessageAck_stanza_witness:
  "attrs (ackStanza sampleReadReceipt Map.empty) ''id'' = Some ''A1'' \<and>
   attrs (ackStanza sampleReadReceipt Map.empty) ''to'' = Some ''123-456@g.us'' \<and>
   attrs (ackStanza sampleReadReceipt Map.empty) ''class'' = Some ''receipt'' \<and>
   attrs (ackStanza sampleReadReceipt Map.empty) ''participant'' = Some ''bob@s.whatsapp.net'' \<and>
   attrs (ackStanza sampleReadReceipt Map.empty) ''type'' = Some ''read'' \<and>
   attrs (ackStanza sampleMessage Map.empty) ''type'' = None"
  using sendMessageAck_stanza [of sampleReadReceipt Map.empty]
        sendMessageAck_stanza [of sampleMessage Map.empty]
  by (simp add: sampleReadReceipt_def sampleMessage_def truthy_def)

text \<open>
  The claim as stated fails when the caller's extra attributes name a base key: the
  ack of a call stanza with id \<open>A1\<close>, sent with the extra attributes
  \<open>{ type: 'offer', id: 'B2' }\<close>, has the id \<open>B2\<close>.
\<close>

theorem sendMessageAck_counterexample:
  "attrs (ackStanza
      (BinaryNode ''call'' (Map.empty(''id'' \<mapsto> ''A1'', ''from'' \<mapsto> ''alice@s.whatsapp.net'')) NoContent)
      (Map.empty(''type'' \<mapsto> ''offer'', ''id'' \<mapsto> ''B2''))) ''id'' = Some ''B2'' \<and>
   attrs (BinaryNode ''call'' (Map.empty(''id'' \<mapsto> ''A1'', ''from'' \<mapsto> ''alice@s.whatsapp.net'')) NoContent) ''id''
     = Some ''A1''"
  by (simp add: ackStanza_def ackBaseAttrs_def Let_def map_add_def truthy_def)

text \<open>
  Claim C8. For every \<open>w:gp2\<close> notification whose first child has one of the tags
  \<open>promote\<close>, \<open>demote\<close>, \<open>remove\<close>, \<open>add\<close>, \<open>leave\<close>, \<open>processNotification\<close> returns a
  message whose stub type is the member \<open>GROUP_PARTICIPANT_\<close> followed by the upper-cased
  tag and whose stub parameters are the \<open>jid\<close> attributes of the child's \<open>participant\<close>
  children; when there is exactly one such jid, it names the same user as the
  notification's \<open>participant\<close> attribute and the tag is \<open>remove\<close>, the stub type is
  \<open>GROUP_PARTICIPANT_LEAVE\<close> instead.
\<close>

theorem processNotification_participants:
  assumes "attrs node ''type'' = Some ''w:gp2''"
    and "getAllBinaryNodeChildren wb node = child # rest"
    and "tag child \<in> {''promote'', ''demote'', ''remove'', ''add'', ''leave''}"
  shows "processNotification wb ut creds node =
      Inr ([], Some (emptyMessage
        \<lparr> messageStubType :=
            (if (\<exists>p. map (\<lambda>p. attrs p ''jid'') (getBinaryNodeChildren wb (Some child) ''participant'') = [p]
                      \<and> areJidsSameUser wb p (attrs node ''participant''))
                 \<and> tag child = ''remove''
             then Some GROUP_PARTICIPANT_LEAVE
             else WAMessageStubType_lookup (''GROUP_PARTICIPANT_'' @ toUpperCase (tag child))),
          messageStubParameters :=
            Some (map (\<lambda>p. attrs p ''jid'') (getBinaryNodeChildren wb (Some child) ''participant'')) \<rparr>))
    \<and> WAMessageStubType_lookup (''GROUP_PARTICIPANT_'' @ toUpperCase (tag child)) =
        Some (if tag child = ''promote'' then GROUP_PARTICIPANT_PROMOTE
              else if tag child = ''demote'' then GROUP_PARTICIPANT_DEMOTE
              else if tag child = ''remove'' then GROUP_PARTICIPANT_REMOVE
              else if tag child = ''add'' then GROUP_PARTICIPANT_ADD
              else GROUP_PARTICIPANT_LEAVE)"
proof -
  let ?ps = "map (\<lambda>p. attrs p ''jid'') (getBinaryNodeChildren wb (Some child) ''participant'')"
  have sel: "(case ?ps of [p] \<Rightarrow> areJidsSameUser wb p (attrs node ''participant'') \<and> tag child = ''remove''
               | _ \<Rightarrow> False)
           = ((\<exists>p. ?ps = [p] \<and> areJidsSameUser wb p (attrs node ''participant'')) \<and> tag child = ''remove'')"
    by (auto split: list.splits)
  have stub: "participantsStub wb node child = emptyMessage
        \<lparr> messageStubType :=
            (if (\<exists>p. ?ps = [p] \<and> areJidsSameUser wb p (attrs node ''participant'')) \<and> tag child = ''remove''
             then Some GROUP_PARTICIPANT_LEAVE
             else WAMessageStubType_lookup (''GROUP_PARTICIPANT_'' @ toUpperCase (tag child))),
          messageStubParameters := Some ?ps \<rparr>"
    unfolding participantsStub_def Let_def sel by simp
  have "processNotification wb ut creds node = Inr ([], Some (participantsStub wb node child))"
    using assms by (auto simp: processNotification_def processGroupNotification_def Let_def)
  moreover have "WAMessageStubType_lookup (''GROUP_PARTICIPANT_'' @ toUpperCase (tag child)) =
        Some (if tag child = ''promote'' then GROUP_PARTICIPANT_PROMOTE
              else if tag child = ''demote'' then GROUP_PARTICIPANT_DEMOTE
              else if tag child = ''remove'' then GROUP_PARTICIPANT_REMOVE
              else if tag child = ''add'' then GROUP_PARTICIPANT_ADD
              else GROUP_PARTICIPANT_LEAVE)"
    using assms(3) stub_lookup_tags by auto
  ultimately show ?thesis
    using stub by simp
qed

theorem processNotification_participants_witness:
  "attrs sampleRemoveNotification ''type'' = Some ''w:gp2'' \<and>
   processNotification sampleWABinary sampleUtils sampleCreds sampleRemoveNotification =
     Inr ([], Some (emptyMessage
       \<lparr> messageStubType := Some GROUP_PARTICIPANT_LEAVE,
         messageStubParameters := Some [Some ''bob@s.whatsapp.net''] \<rparr>))"
proof -
  let ?child = "BinaryNode ''remove'' Map.empty
                 (Nodes [BinaryNode ''participant'' (Map.empty(''jid'' \<mapsto> ''bob@s.whatsapp.net''))
                           NoContent])"
  have a: "attrs sampleRemoveNotification ''type'' = Some ''w:gp2''"
    by (simp add: sampleRemoveNotification_def)
  have b: "getAllBinaryNodeChildren sampleWABinary sampleRemoveNotification = ?child # []"
    by (simp add: sampleRemoveNotification_def sampleWABinary_def)
  have c: "tag ?child \<in> {''promote'', ''demote'', ''remove'', ''add'', ''leave''}"
    by simp
  have d: "map (\<lambda>p. attrs p ''jid'') (getBinaryNodeChildren sampleWABinary (Some ?child) ''participant'')
             = [Some ''bob@s.whatsapp.net'']"
    by (simp add: sampleWABinary_def)
  have e: "areJidsSameUser sampleWABinary (Some ''bob@s.whatsapp.net'')
             (attrs sampleRemoveNotification ''participant'')"
    by (simp add: sampleWABinary_def sampleRemoveNotification_def)
  show ?thesis
    using processNotification_participants [OF a b c, of sampleUtils sampleCreds] a d e
    by simp
qed




text \<open>
  Claim C10. Every \<open>messages.upsert\<close> emitted by \<open>handleNotification\<close> has the type
  \<open>append\<close>, whatever the attributes of the stanza: when \<open>processNotification\<close> yields a
  message and the local identity is known, the handler emits exactly the ack, the
  events of the interpretation and one upsert of the synthesized message with type
  \<open>append\<close>. The upsert of the \<open>message\<close> handler, in contrast, has type \<open>append\<close> when
  the stanza has an \<open>offline\<close> attribute and \<open>notify\<close> otherwise.
\<close>

theorem handleNotification_upsert_append:
  "(\<forall>e\<in>set (fst (handleNotification wb ut creds node)). \<forall>ty\<in>set (upsertTypes e). ty = upsert_append) \<and>
   (\<forall>es msg myId.
      processNotification wb ut creds node = Inr (es, Some msg) \<and> me creds = Some myId \<longrightarrow>
      handleNotification wb ut creds node =
        (sendMessageAck node Map.empty @ es
           @ [Emit (MessagesUpsert [notificationMessage wb myId node msg] upsert_append)], None)) \<and>
   (\<forall>e\<in>set (fst (snd (onMessage wb ut creds io wsOpen st stanza d))). \<forall>ty\<in>set (upsertTypes e).
      ty = (if truthy (attrs stanza ''offline'') then upsert_append else upsert_notify))"
proof -
  have a: "\<forall>e\<in>set (fst (handleNotification wb ut creds node)). \<forall>ty\<in>set (upsertTypes e). ty = upsert_append"
  proof (cases "processNotification wb ut creds node")
    case (Inl e)
    then show ?thesis
      by (simp add: handleNotification_def sendMessageAck_def Let_def)
  next
    case (Inr p)
    obtain es r where p: "p = (es, r)" by (cases p)
    have "\<forall>e\<in>set es. upsertTypes e = []"
      using processNotification_no_upsert Inr p by blast
    then show ?thesis
      using Inr p
      by (auto simp: handleNotification_def sendMessageAck_def Let_def split: option.splits)
  qed
  have b: "\<forall>es msg myId.
      processNotification wb ut creds node = Inr (es, Some msg) \<and> me creds = Some myId \<longrightarrow>
      handleNotification wb ut creds node =
        (sendMessageAck node Map.empty @ es
           @ [Emit (MessagesUpsert [notificationMessage wb myId node msg] upsert_append)], None)"
    by (simp add: handleNotification_def Let_def)
  have c: "\<forall>e\<in>set (fst (snd (onMessage wb ut creds io wsOpen st stanza d))). \<forall>ty\<in>set (upsertTypes e).
      ty = (if truthy (attrs stanza ''offline'') then upsert_append else upsert_notify)"
    using cleanAndUpsert_types [of ut creds stanza]
    by (auto simp: onMessage_def sendMessageAck_def Let_def
             split: sum.splits prod.splits option.splits if_splits)
  show ?thesis using a b c by blast
qed

theorem handleNotification_upsert_append_witness:
  "truthy (attrs sampleRemoveNotification ''offline'') \<and>
   concat (map upsertTypes (fst (handleNotification sampleWABinary sampleUtils sampleCreds
       sampleRemoveNotification))) = [upsert_append] \<and>
   \<not> truthy (attrs sampleMessage ''offline'') \<and>
   concat (map upsertTypes (fst (snd (onMessage sampleWABinary sampleUtils sampleCreds sampleIO True
       sampleState sampleMessage sampleDecrypted)))) = [upsert_notify]"
proof -
  have a: "truthy (attrs sampleRemoveNotification ''offline'')"
          "\<not> truthy (attrs sampleMessage ''offline'')"
    by code_simp+
  have b: "processNotification sampleWABinary sampleUtils sampleCreds sampleRemoveNotification =
     Inr ([], Some (emptyMessage
       \<lparr> messageStubType := Some GROUP_PARTICIPANT_LEAVE,
         messageStubParameters := Some [Some ''bob@s.whatsapp.net''] \<rparr>))"
    by (simp add: processNotification_def processGroupNotification_def participantsStub_def
          sampleRemoveNotification_def sampleWABinary_def jidUser_def Let_def)
  have c: "me sampleCreds = Some ''me@s.whatsapp.net''"
    by (simp add: sampleCreds_def)
  have d: "concat (map upsertTypes (fst (snd (onMessage sampleWABinary sampleUtils sampleCreds sampleIO True
       sampleState sampleMessage sampleDecrypted)))) = [upsert_notify]"
    by code_simp
  have "handleNotification sampleWABinary sampleUtils sampleCreds sampleRemoveNotification =
        (sendMessageAck sampleRemoveNotification Map.empty @ []
           @ [Emit (MessagesUpsert [notificationMessage sampleWABinary ''me@s.whatsapp.net''
                sampleRemoveNotification (emptyMessage
       \<lparr> messageStubType := Some GROUP_PARTICIPANT_LEAVE,
         messageStubParameters := Some [Some ''bob@s.whatsapp.net''] \<rparr>)] upsert_append)], None)"
    using handleNotification_upsert_append [of sampleWABinary sampleUtils sampleCreds
            sampleRemoveNotification sampleIO True sampleState sampleMessage sampleDecrypted] b c
    by blast
  then show ?thesis
    using a d by (simp add: sendMessageAck_def)
qed

end
